theory Spec2Isabelle
  imports Complex_Main "HOL-Library.AList" "HOL-Library.Char_ord"
begin

section \<open>Values, exceptions and printed output\<close>

text \<open>
  The module \<^verbatim>\<open>models.py\<close> works on numpy float arrays. An entry is either the
  missing-value marker \<^verbatim>\<open>np.nan\<close> or a number; a one-dimensional array is a list of
  entries and a two-dimensional array a list of rows. No statement of the module writes
  into an array in place (every update rebinds an attribute or a dictionary slot), so
  arrays are values. Calendar dates are day numbers.
\<close>

datatype cell = NaN | Num real

type_synonym array = "cell list"
type_synonym matrix = "cell list list"
type_synonym date = int

text \<open>
  The exceptions the module can raise. \<open>OtherError\<close> stands for whatever an imported
  function (a transform, the model provider, the ensemble dispatch) raises itself.
\<close>

datatype exn =
    AssertionError | NameError | KeyError | ValueError | TypeError | IndexError
  | OtherError string

text \<open>
  A Python 2 \<^verbatim>\<open>print a, b\<close> statement writes the items \<open>a\<close> and \<open>b\<close> on one line.
  \<open>Now\<close> is the item \<^verbatim>\<open>datetime.datetime.now()\<close>.
\<close>

datatype item = S string | E exn | D date | Now

type_synonym line = "item list"

text \<open>Dictionaries keep their entries in an association list.\<close>

type_synonym dict = "(string \<times> matrix) list"

text \<open>
  The interpreter state outside the objects' own attributes: the dictionary objects by
  address (\<^verbatim>\<open>self.X[key] = v\<close> writes into the object that \<^verbatim>\<open>self.X\<close> refers to),
  the next unused address, and what has been printed.
\<close>

record pystate =
  dicts :: "nat \<Rightarrow> dict"
  next_addr :: nat
  stdout :: "line list"

definition print :: "line \<Rightarrow> pystate \<Rightarrow> pystate" where
  "print l s = s\<lparr>stdout := stdout s @ [l]\<rparr>"

definition print_if :: "bool \<Rightarrow> line \<Rightarrow> pystate \<Rightarrow> pystate" where
  "print_if b l s = (if b then print l s else s)"

subsection \<open>Slicing and stacking\<close>

text \<open>\<^verbatim>\<open>xs[k:]\<close> for an integer \<open>k\<close>: a negative \<open>k\<close> counts from the end.\<close>

definition py_from :: "int \<Rightarrow> 'a list \<Rightarrow> 'a list" where
  "py_from k xs = (if 0 \<le> k then drop (nat k) xs else drop (length xs - nat (- k)) xs)"

text \<open>
  \<^verbatim>\<open>np.hstack\<close> of two-dimensional arrays joins them row by row; it raises
  \<^verbatim>\<open>ValueError\<close> for an empty list and for arrays whose numbers of rows differ.
\<close>

fun hstack :: "matrix list \<Rightarrow> exn + matrix" where
  "hstack [] = Inl ValueError"
| "hstack (m # ms) =
     (if list_all (\<lambda>x. length x = length m) ms
      then Inr (foldl (\<lambda>acc x. map2 (@) acc x) m ms)
      else Inl ValueError)"

text \<open>\<^verbatim>\<open>a[:, None]\<close>: a one-dimensional array as a single column.\<close>

definition column :: "array \<Rightarrow> matrix" where
  "column a = map (\<lambda>c. [c]) a"

text \<open>\<^verbatim>\<open>np.insert(a, 0, [np.nan] * n)\<close>.\<close>

definition insert_nans :: "nat \<Rightarrow> array \<Rightarrow> array" where
  "insert_nans n a = replicate n NaN @ a"

text \<open>\<^verbatim>\<open>xs.index(x)\<close>: the first position of \<open>x\<close>, \<^verbatim>\<open>ValueError\<close> when absent.\<close>

fun index_of :: "'a list \<Rightarrow> 'a \<Rightarrow> exn + nat" where
  "index_of [] x = Inl ValueError"
| "index_of (y # ys) x =
     (if y = x then Inr 0
      else (case index_of ys x of Inl e \<Rightarrow> Inl e | Inr i \<Rightarrow> Inr (Suc i)))"

subsection \<open>Decimal text of integers\<close>

definition digit :: "nat \<Rightarrow> char" where
  "digit d = char_of (48 + d)"

function str_nat :: "nat \<Rightarrow> string" where
  "str_nat n = (if n < 10 then [digit n] else str_nat (n div 10) @ [digit (n mod 10)])"
  by pat_completeness auto
termination
  by (relation "measure id") auto

declare str_nat.simps [simp del]

definition str_int :: "int \<Rightarrow> string" where
  "str_int i = (if i < 0 then CHR ''-'' # str_nat (nat (- i)) else str_nat (nat i))"

fun join_comma :: "string list \<Rightarrow> string" where
  "join_comma [] = []"
| "join_comma [x] = x"
| "join_comma (x # y # ys) = x @ '', '' @ join_comma (y # ys)"

section \<open>The imported modules\<close>

text \<open>
  \<^verbatim>\<open>processing_functions\<close>, \<^verbatim>\<open>argo_class\<close> and \<^verbatim>\<open>pandas\<close> are imported by the
  module and are not part of it: the functions it calls are parameters. Each returns
  its result or raises. \<open>logit_percent\<close> is called on the target (one-dimensional) and
  on an input source (two-dimensional); \<open>logit_percent_2d\<close> is the same function at the
  second shape. \<open>make_predictions\<close> is \<^verbatim>\<open>argo_class.ARGO(X, target, flag)\<close> followed by
  \<^verbatim>\<open>make_predictions(method, horizon, training=..., in_sample=..., **params)\<close>.
  \<open>dict_keys\<close> is the order in which the interpreter's hash table lists a dictionary's
  keys.

  The module also refers to the name \<^verbatim>\<open>argo_functions\<close>, which it never imports.
  \<open>argo_functions g = None\<close> is the module as written: the name is unbound and every
  reference to it raises \<^verbatim>\<open>NameError\<close>. \<open>Some m\<close> is a run in which the name has
  been bound in the module's globals from outside.
\<close>

datatype ar_terms = PyNone | PyInt int | PyStr string | PyList "int list"

record argo_functions_module =
  ensemble_dispatcher ::
    "string \<Rightarrow> (matrix \<Rightarrow> array \<Rightarrow> nat \<Rightarrow> nat \<Rightarrow> bool \<Rightarrow> exn + array) option"
  metrics :: "array \<Rightarrow> array \<Rightarrow> line list \<times> exn option"

record 'v env =
  logit_percent :: "array \<Rightarrow> exn + array"
  logit_percent_2d :: "matrix \<Rightarrow> exn + matrix"
  gtlog :: "matrix \<Rightarrow> exn + matrix"
  create_ar_stack :: "array \<Rightarrow> ar_terms \<Rightarrow> exn + matrix"
  inverse_logit_percent :: "array \<Rightarrow> exn + array"
  make_predictions ::
    "matrix \<Rightarrow> array \<Rightarrow> bool \<Rightarrow> string \<Rightarrow> nat \<Rightarrow> nat \<Rightarrow> bool \<Rightarrow> (string \<times> 'v) list
       \<Rightarrow> exn + array"
  to_datetime :: "string \<Rightarrow> exn + date"
  dict_keys :: "string list \<Rightarrow> string list"
  argo_functions :: "argo_functions_module option"

section \<open>Predictor\<close>

text \<open>
  The attributes of a \<^verbatim>\<open>Predictor\<close> object. \<open>X\<close> is the address of the unit's
  dictionary of input sources; \<open>predictions\<close> is \<^verbatim>\<open>None\<close> until \<^verbatim>\<open>predict\<close> has run.
\<close>

record predictor =
  X :: nat
  target :: array
  target_reserve :: array
  label :: string
  start_date :: string
  datelist :: "date list"
  resolution :: string
  verbose :: bool
  transform_target :: bool
  predictions :: "array option"

definition dashes :: string where
  "dashes = ''-------------------------------------------------''"

text \<open>\<^verbatim>\<open>Predictor.__init__\<close>\<close>

definition Predictor_init ::
  "nat \<Rightarrow> array \<Rightarrow> string \<Rightarrow> string \<Rightarrow> date list \<Rightarrow> string \<Rightarrow> bool \<Rightarrow> pystate
     \<Rightarrow> pystate \<times> predictor" where
  "Predictor_init geo_model_inputs tgt lbl start dl res verb s =
     (print [S ''Predictor object initialized: '', S lbl] (print [S dashes] s),
      \<lparr>X = geo_model_inputs, target = tgt, target_reserve = tgt, label = lbl,
       start_date = start, datelist = dl, resolution = res, verbose = verb,
       transform_target = False, predictions = None\<rparr>)"

subsection \<open>data_process: the three transforms\<close>

text \<open>
  Each transform sits in its own \<^verbatim>\<open>try ... except Exception\<close>, so none of the three
  blocks can raise. The arguments \<open>tt\<close>, \<open>ta\<close> and \<open>tg\<close> are the parameters
  \<^verbatim>\<open>transform_target\<close>, \<^verbatim>\<open>transform_ath\<close> and \<^verbatim>\<open>transform_gt\<close>.
\<close>

definition dp_target :: "'v env \<Rightarrow> bool \<Rightarrow> pystate \<Rightarrow> predictor \<Rightarrow> pystate \<times> predictor" where
  "dp_target g tt s u =
     (if tt then
        (case logit_percent g (target u) of
           Inr t \<Rightarrow>
             (print_if (verbose u) [S (CHR 0x09 # ''Target transformed.'')] s,
              u\<lparr>target := t, transform_target := True\<rparr>)
         | Inl e \<Rightarrow>
             (print [S (CHR 0x09 # ''Error: target may contain 0 or NaNs.''), E e] s,
              u\<lparr>transform_target := False\<rparr>))
      else (s, u))"

definition set_item :: "nat \<Rightarrow> string \<Rightarrow> matrix \<Rightarrow> pystate \<Rightarrow> pystate" where
  "set_item a k v s = s\<lparr>dicts := (dicts s)(a := AList.update k v (dicts s a))\<rparr>"

definition dp_ath :: "'v env \<Rightarrow> bool \<Rightarrow> pystate \<Rightarrow> predictor \<Rightarrow> pystate \<times> predictor" where
  "dp_ath g ta s u =
     (case (if ta then map_of (dicts s (X u)) ''ath'' else None) of
        None \<Rightarrow> (s, u)
      | Some a \<Rightarrow>
          (case logit_percent_2d g a of
             Inr a' \<Rightarrow>
               (print_if (verbose u) [S (CHR 0x09 # ''Athenahealth transformed.'')]
                  (set_item (X u) ''ath'' a' s), u)
           | Inl e \<Rightarrow>
               (print [S (CHR 0x09 # ''Error: athenahealth data may contain 0 or NaNs.''), E e] s,
                u)))"

definition dp_gt :: "'v env \<Rightarrow> bool \<Rightarrow> pystate \<Rightarrow> predictor \<Rightarrow> pystate \<times> predictor" where
  "dp_gt g tg s u =
     (case (if tg then map_of (dicts s (X u)) ''gt'' else None) of
        None \<Rightarrow> (s, u)
      | Some a \<Rightarrow>
          (case gtlog g a of
             Inr a' \<Rightarrow>
               (print_if (verbose u) [S (CHR 0x09 # ''Google Trends transformed.'')]
                  (set_item (X u) ''gt'' a' s), u)
           | Inl e \<Rightarrow>
               (print [S (CHR 0x09 # ''Error: GT data may contain 0 or NaNs.''), E e] s, u)))"

subsection \<open>data_process: the autoregressive block\<close>

text \<open>Truth value of \<^verbatim>\<open>AR_terms\<close> in \<^verbatim>\<open>if AR_terms:\<close>.\<close>

fun truthy :: "ar_terms \<Rightarrow> bool" where
  "truthy PyNone = False"
| "truthy (PyInt i) = (i \<noteq> 0)"
| "truthy (PyStr t) = (t \<noteq> [])"
| "truthy (PyList l) = (l \<noteq> [])"

text \<open>
  \<^verbatim>\<open>discard = AR_terms if isinstance(AR_terms, (int, long)) else max(AR_terms)\<close>.
  The greatest element of a string is a character, that is a string of length one.
\<close>

datatype pyidx = IdxInt int | IdxStr string

fun discard_of :: "ar_terms \<Rightarrow> exn + pyidx" where
  "discard_of (PyInt i) = Inr (IdxInt i)"
| "discard_of PyNone = Inl TypeError"
| "discard_of (PyStr []) = Inl ValueError"
| "discard_of (PyStr (c # cs)) = Inr (IdxStr [fold max cs c])"
| "discard_of (PyList []) = Inl ValueError"
| "discard_of (PyList (i # is)) = Inr (IdxInt (fold max is i))"

text \<open>\<^verbatim>\<open>xs[discard:]\<close>: a slice bound that is not an integer raises.\<close>

fun py_slice_from :: "pyidx \<Rightarrow> 'a list \<Rightarrow> exn + 'a list" where
  "py_slice_from (IdxInt k) xs = Inr (py_from k xs)"
| "py_slice_from (IdxStr t) xs = Inl TypeError"

text \<open>
  \<^verbatim>\<open>for key in self.X: self.X[key] = self.X[key][discard:]\<close>. The entries sliced
  before a failure stay sliced.
\<close>

fun slice_entries :: "pyidx \<Rightarrow> dict \<Rightarrow> exn option \<times> dict" where
  "slice_entries i [] = (None, [])"
| "slice_entries i ((k, v) # kvs) =
     (case py_slice_from i v of
        Inl e \<Rightarrow> (Some e, (k, v) # kvs)
      | Inr v' \<Rightarrow> (case slice_entries i kvs of (r, kvs') \<Rightarrow> (r, (k, v') # kvs')))"

text \<open>
  The loop
  \<^verbatim>\<open>while len(self.X.keys()) > 1:
      other_key = self.X.keys().pop(0)
      if other_key != 'ar':
          self.X['ar'] = self.X['ar'][:len(self.X[other_key])]
          break\<close>
  changes nothing when the first key listed is \<^verbatim>\<open>'ar'\<close>, and then runs forever:
  \<open>None\<close> is that run.
\<close>

partial_function (option) ar_trim :: "(string list \<Rightarrow> string list) \<Rightarrow> dict \<Rightarrow> (exn + dict) option"
  where
  "ar_trim keys d =
     (if length (keys (map fst d)) > 1 then
        (case keys (map fst d) of
           [] \<Rightarrow> Some (Inl IndexError)
         | other_key # rest \<Rightarrow>
             if other_key \<noteq> ''ar'' then
               (case map_of d ''ar'' of
                  None \<Rightarrow> Some (Inl KeyError)
                | Some a \<Rightarrow>
                    (case map_of d other_key of
                       None \<Rightarrow> Some (Inl KeyError)
                     | Some b \<Rightarrow> Some (Inr (AList.update ''ar'' (take (length b) a) d))))
             else ar_trim keys d)
      else Some (Inr d))"

declare ar_trim.simps [code]

fun str_ar_terms :: "ar_terms \<Rightarrow> string" where
  "str_ar_terms PyNone = ''None''"
| "str_ar_terms (PyInt i) = str_int i"
| "str_ar_terms (PyStr t) = t"
| "str_ar_terms (PyList l) = ''['' @ join_comma (map str_int l) @ '']''"

text \<open>The \<^verbatim>\<open>try ... except Exception\<close> that builds \<^verbatim>\<open>self.X['ar']\<close>.\<close>

definition ar_block :: "'v env \<Rightarrow> ar_terms \<Rightarrow> pystate \<Rightarrow> predictor \<Rightarrow> pystate option" where
  "ar_block g AR_terms s u =
     (case create_ar_stack g (target u) AR_terms of
        Inl e \<Rightarrow> Some (print [S ''Error: AR matrix creation unsuccessful.'', E e] s)
      | Inr m \<Rightarrow>
          (case ar_trim (dict_keys g) (AList.update ''ar'' m (dicts s (X u))) of
             None \<Rightarrow> None
           | Some (Inl e) \<Rightarrow>
               Some (print [S ''Error: AR matrix creation unsuccessful.'', E e]
                 (set_item (X u) ''ar'' m s))
           | Some (Inr d) \<Rightarrow>
               Some (print_if (verbose u)
                 [S (CHR 0x09 # ''AR'' @ str_ar_terms AR_terms @ '' matrix created.'')]
                 (s\<lparr>dicts := (dicts s)(X u := d)\<rparr>))))"

text \<open>
  The whole \<^verbatim>\<open>if AR_terms:\<close> block. The result is \<open>None\<close> when the loop above does
  not end; otherwise it is the exception raised, if any, with the state reached.
\<close>

definition dp_ar ::
  "'v env \<Rightarrow> ar_terms \<Rightarrow> pystate \<Rightarrow> predictor \<Rightarrow> (exn option \<times> pystate \<times> predictor) option" where
  "dp_ar g AR_terms s u =
     (if \<not> truthy AR_terms then Some (None, s, u)
      else
        (case discard_of AR_terms of
           Inl e \<Rightarrow> Some (Some e, s, u)
         | Inr discard \<Rightarrow>
             (case slice_entries discard (dicts s (X u)) of
                (Some e, d) \<Rightarrow> Some (Some e, s\<lparr>dicts := (dicts s)(X u := d)\<rparr>, u)
              | (None, d) \<Rightarrow>
                  (case py_slice_from discard (datelist u) of
                     Inl e \<Rightarrow> Some (Some e, s\<lparr>dicts := (dicts s)(X u := d)\<rparr>, u)
                   | Inr dl \<Rightarrow>
                       (case ar_block g AR_terms (s\<lparr>dicts := (dicts s)(X u := d)\<rparr>)
                               (u\<lparr>datelist := dl\<rparr>) of
                          None \<Rightarrow> None
                        | Some s' \<Rightarrow>
                            (case py_slice_from discard (target u) of
                               Inl e \<Rightarrow> Some (Some e, s', u\<lparr>datelist := dl\<rparr>)
                             | Inr t \<Rightarrow>
                                 (case py_slice_from discard (target_reserve u) of
                                    Inl e \<Rightarrow> Some (Some e, s', u\<lparr>datelist := dl, target := t\<rparr>)
                                  | Inr r \<Rightarrow>
                                      Some (None, s',
                                        u\<lparr>datelist := dl, target := t,
                                          target_reserve := r\<rparr>))))))))"

text \<open>
  \<^verbatim>\<open>Predictor.data_process(transform_target, transform_ath, transform_gt, AR_terms)\<close>.
  The default of \<^verbatim>\<open>AR_terms\<close> in the source is the string \<^verbatim>\<open>'None'\<close>.
\<close>

definition data_process ::
  "'v env \<Rightarrow> bool \<Rightarrow> bool \<Rightarrow> bool \<Rightarrow> ar_terms \<Rightarrow> pystate \<Rightarrow> predictor
     \<Rightarrow> (exn option \<times> pystate \<times> predictor) option" where
  "data_process g tt ta tg AR_terms s u =
     (case dp_target g tt
             (print_if (verbose u) [S (''Processing data for '' @ label u @ '': '')] s) u of
        (s1, u1) \<Rightarrow>
          (case dp_ath g ta s1 u1 of
             (s2, u2) \<Rightarrow>
               (case dp_gt g tg s2 u2 of
                  (s3, u3) \<Rightarrow> dp_ar g AR_terms s3 u3)))"

definition AR_terms_default :: ar_terms where
  "AR_terms_default = PyStr ''None''"

subsection \<open>predict\<close>

text \<open>
  \<^verbatim>\<open>input_vars\<close> is \<^verbatim>\<open>'all'\<close> or a list of source names; \<^verbatim>\<open>train_len\<close> is
  \<^verbatim>\<open>'default'\<close> or the width of the training window; \<^verbatim>\<open>horizon\<close> is documented as
  an integer from 0 to 3. Widths and horizons are natural numbers.
\<close>

datatype input_vars = AllVars | Vars "string list"

datatype train_len = Default | Width nat

text \<open>\<^verbatim>\<open>[self.X[term] for term in terms]\<close>: a missing key raises \<^verbatim>\<open>KeyError\<close>.\<close>

fun lookups :: "dict \<Rightarrow> string list \<Rightarrow> exn + matrix list" where
  "lookups d [] = Inr []"
| "lookups d (k # ks) =
     (case map_of d k of
        None \<Rightarrow> Inl KeyError
      | Some m \<Rightarrow> (case lookups d ks of Inl e \<Rightarrow> Inl e | Inr ms \<Rightarrow> Inr (m # ms)))"

definition stack_inputs :: "input_vars \<Rightarrow> dict \<Rightarrow> exn + matrix" where
  "stack_inputs input_vars d =
     (case lookups d (case input_vars of AllVars \<Rightarrow> [''ath'', ''gt'', ''ar''] | Vars ts \<Rightarrow> ts) of
        Inl e \<Rightarrow> Inl e
      | Inr ms \<Rightarrow> hstack ms)"

text \<open>
  The default width: 104 for weekly data, 24 for monthly data. For any other
  resolution \<^verbatim>\<open>train_len\<close> stays the string \<^verbatim>\<open>'default'\<close> (\<open>None\<close> here), and the
  subtraction \<^verbatim>\<open>shift - train_len\<close> raises \<^verbatim>\<open>TypeError\<close>.
\<close>

definition resolve_train_len :: "train_len \<Rightarrow> string \<Rightarrow> nat option" where
  "resolve_train_len train_len res =
     (case train_len of
        Width n \<Rightarrow> Some n
      | Default \<Rightarrow>
          if res = ''week'' then Some 104 else if res = ''month'' then Some 24 else None)"

text \<open>
  The report of the accuracy metrics,
  \<^verbatim>\<open>argo_functions.metrics(predictions[2 * horizon:-(1 + horizon)], target[2 * horizon:])\<close>:
  the lines it prints and the exception it raises, if any.
\<close>

definition metrics_call :: "'v env \<Rightarrow> nat \<Rightarrow> array \<Rightarrow> array \<Rightarrow> line list \<times> exn option" where
  "metrics_call g horizon preds tgt =
     (case argo_functions g of
        None \<Rightarrow> ([], Some NameError)
      | Some m \<Rightarrow>
          metrics m (drop (2 * horizon) (take (length preds - (1 + horizon)) preds))
            (drop (2 * horizon) tgt))"

text \<open>
  The post-prediction part of \<^verbatim>\<open>predict\<close>, from the assignment of
  \<^verbatim>\<open>self.predictions\<close> on. The metrics are reported inside \<^verbatim>\<open>try ... except:\<close>,
  whose handler is a bare string expression and prints nothing.
\<close>

definition post_predict ::
  "'v env \<Rightarrow> nat \<Rightarrow> nat \<Rightarrow> bool \<Rightarrow> array \<Rightarrow> pystate \<Rightarrow> predictor
     \<Rightarrow> exn option \<times> pystate \<times> predictor" where
  "post_predict g horizon width in_sample raw s u =
     (case (if transform_target u then
              (case inverse_logit_percent g raw of
                 Inl e \<Rightarrow> Inl (e, u\<lparr>predictions := Some raw\<rparr>)
               | Inr p \<Rightarrow>
                   (case inverse_logit_percent g (target u) of
                      Inl e \<Rightarrow> Inl (e, u\<lparr>predictions := Some p\<rparr>)
                    | Inr t \<Rightarrow> Inr (p, t)))
            else Inr (raw, target u)) of
        Inl (e, u') \<Rightarrow> (Some e, s, u')
      | Inr (p, t) \<Rightarrow>
          (None,
           print_if (verbose u) [S dashes]
             (print_if (verbose u) [S ''Prediction complete.'']
                (s\<lparr>stdout := stdout s @
                     fst (metrics_call g horizon (insert_nans (horizon * 2) p)
                            (if in_sample then t else drop width t))\<rparr>)),
           u\<lparr>target := (if in_sample then t else drop width t),
             predictions := Some (insert_nans (horizon * 2) p)\<rparr>))"

text \<open>
  What a verbose \<^verbatim>\<open>predict\<close> prints between its assertion and the call of the
  provider: the first in-sample date (in-sample runs only), the first out-of-sample
  date, the lengths of the windowed target and design matrix, and the expected length of
  the prediction. \<open>u\<close> is the unit before its arrays are cut to the window.
\<close>

definition predict_report ::
  "predictor \<Rightarrow> nat \<Rightarrow> bool \<Rightarrow> nat \<Rightarrow> nat \<Rightarrow> nat \<Rightarrow> matrix \<Rightarrow> pystate \<Rightarrow> pystate" where
  "predict_report u horizon in_sample shift shift_vars shift_dates X_stack s =
     print_if (verbose u)
       [S (CHR 0x09 # ''Prediction length: ''),
        S (str_int (int (length (drop shift_dates (datelist u))) + (int horizon - 3)))]
       (print_if (verbose u)
          [S (CHR 0x09 # ''Target length: '' @
              str_nat (length (drop shift_vars (target u))) @
              CHR 0x09 # ''Predictor length: '' @
              str_nat (length (drop shift_vars X_stack)))]
          (print_if (verbose u)
             [S (CHR 0x09 # ''First out of sample prediction: ''), D (datelist u ! shift)]
             (print_if (verbose u \<and> in_sample)
                [S (CHR 0x09 # ''First in sample prediction: ''),
                 D (datelist u ! shift_dates)] s)))"

text \<open>
  \<^verbatim>\<open>Predictor.predict(input_vars, method, horizon, train_len, in_sample, **params)\<close>.
  The result is the exception raised, if any, with the state the call leaves behind.
  \<open>shift\<close> is the position of the start date in the calendar, \<open>shift_vars\<close> the start of
  the training window and \<open>shift_dates\<close> the start of the calendar that is kept.
\<close>

definition predict ::
  "'v env \<Rightarrow> input_vars \<Rightarrow> string \<Rightarrow> nat \<Rightarrow> train_len \<Rightarrow> bool \<Rightarrow> (string \<times> 'v) list
     \<Rightarrow> pystate \<Rightarrow> predictor \<Rightarrow> exn option \<times> pystate \<times> predictor" where
  "predict g input_vars meth horizon train_len in_sample params s0 u =
     (let s = print_if (verbose u) [S (''Running method for '' @ label u @ '': ''), S meth] s0 in
      case stack_inputs input_vars (dicts s (X u)) of
        Inl e \<Rightarrow> (Some e, s, u)
      | Inr X_stack \<Rightarrow>
     (case to_datetime g (start_date u) of
        Inl e \<Rightarrow> (Some e, s, u)
      | Inr d \<Rightarrow>
     (case index_of (datelist u) d of
        Inl e \<Rightarrow> (Some e, s, u)
      | Inr shift \<Rightarrow>
     (case resolve_train_len train_len (resolution u) of
        None \<Rightarrow> (Some TypeError, s, u)
      | Some width \<Rightarrow>
          if int shift - int width < 0 then (Some AssertionError, s, u)
          else
            (let shift_vars = shift - width;
                 shift_dates = shift - width * (if in_sample then 1 else 0);
                 s4 = predict_report u horizon in_sample shift shift_vars shift_dates X_stack s;
                 u1 = u\<lparr>target := drop shift_vars (target u),
                        target_reserve := drop shift_vars (target_reserve u),
                        datelist := drop shift_dates (datelist u)\<rparr>
             in case make_predictions g (drop shift_vars X_stack) (target u1)
                       (transform_target u1) meth horizon width in_sample params of
                  Inl e \<Rightarrow> (Some e, s4, u1)
                | Inr raw \<Rightarrow> post_predict g horizon width in_sample raw s4 u1)))))"

section \<open>Geo_model\<close>

text \<open>
  \<^verbatim>\<open>Ens_predictor(target=..., predictions=..., label=..., datelist=...)\<close> holds just
  these four attributes. The orchestrator's list holds units of both classes and reads
  them through the four attribute names only.
\<close>

record ens_predictor =
  ens_target :: array
  ens_predictions :: array
  ens_label :: string
  ens_datelist :: "date list"

datatype unit = Predictor predictor | Ens_predictor ens_predictor

fun unit_label :: "unit \<Rightarrow> string" where
  "unit_label (Predictor u) = label u"
| "unit_label (Ens_predictor e) = ens_label e"

fun unit_target :: "unit \<Rightarrow> array" where
  "unit_target (Predictor u) = target u"
| "unit_target (Ens_predictor e) = ens_target e"

fun unit_datelist :: "unit \<Rightarrow> date list" where
  "unit_datelist (Predictor u) = datelist u"
| "unit_datelist (Ens_predictor e) = ens_datelist e"

fun unit_predictions :: "unit \<Rightarrow> array option" where
  "unit_predictions (Predictor u) = predictions u"
| "unit_predictions (Ens_predictor e) = Some (ens_predictions e)"

text \<open>
  The attributes of a \<^verbatim>\<open>Geo_model\<close> after its data has been loaded: \<open>inputs\<close> is the
  address of the dictionary of input sources, \<open>gm_target\<close>, \<open>gm_datelist\<close>,
  \<open>gm_resolution\<close> and \<open>gm_verbose\<close> are \<^verbatim>\<open>self.target\<close>, \<^verbatim>\<open>self.datelist\<close>,
  \<^verbatim>\<open>self.resolution\<close> and \<^verbatim>\<open>self.verbose\<close>.
\<close>

record geo_model =
  inputs :: nat
  gm_target :: array
  gm_datelist :: "date list"
  model_list :: "unit list"
  pred_start_date :: string
  gm_resolution :: string
  gm_verbose :: bool

subsection \<open>init_predictor and init_prediction_layer\<close>

text \<open>
  \<^verbatim>\<open>copy.deepcopy(self.inputs)\<close> builds a new dictionary object with copies of the
  arrays. \<^verbatim>\<open>np.copy(self.target)\<close> and \<^verbatim>\<open>copy.copy(self.datelist)\<close> build a new array
  and a new list with the same entries.
\<close>

definition deepcopy :: "nat \<Rightarrow> pystate \<Rightarrow> nat \<times> pystate" where
  "deepcopy a s =
     (next_addr s,
      s\<lparr>dicts := (dicts s)(next_addr s := dicts s a), next_addr := Suc (next_addr s)\<rparr>)"

definition new_predictor :: "string \<Rightarrow> pystate \<Rightarrow> geo_model \<Rightarrow> pystate \<times> predictor" where
  "new_predictor lbl s gm =
     (case deepcopy (inputs gm) s of
        (a, s1) \<Rightarrow>
          Predictor_init a (gm_target gm) lbl (pred_start_date gm) (gm_datelist gm)
            (gm_resolution gm) (gm_verbose gm) s1)"

definition init_predictor ::
  "string \<Rightarrow> pystate \<Rightarrow> geo_model \<Rightarrow> pystate \<times> geo_model \<times> predictor" where
  "init_predictor lbl s gm =
     (case new_predictor lbl s gm of
        (s1, m) \<Rightarrow> (s1, gm\<lparr>model_list := model_list gm @ [Predictor m]\<rparr>, m))"

text \<open>
  The list comprehension of \<^verbatim>\<open>init_prediction_layer\<close>: unit \<open>i\<close> of \<open>n\<close> takes
  \<^verbatim>\<open>labels[i]\<close>, which raises \<^verbatim>\<open>IndexError\<close> past the end of \<^verbatim>\<open>labels\<close> (after the
  copy of the inputs has been made).
\<close>

fun layer_units ::
  "string list \<Rightarrow> nat \<Rightarrow> nat \<Rightarrow> pystate \<Rightarrow> geo_model \<Rightarrow> exn option \<times> pystate \<times> predictor list"
  where
  "layer_units labels i 0 s gm = (None, s, [])"
| "layer_units labels i (Suc n) s gm =
     (if i < length labels then
        (case new_predictor (labels ! i) s gm of
           (s1, m) \<Rightarrow>
             (case layer_units labels (Suc i) n s1 gm of (r, s2, ms) \<Rightarrow> (r, s2, m # ms)))
      else (Some IndexError, snd (deepcopy (inputs gm) s), []))"

text \<open>
  The loop of \<^verbatim>\<open>init_prediction_layer\<close>:
  \<^verbatim>\<open>data_process(*process_specs[i])\<close> then \<^verbatim>\<open>predict(*predict_specs[i])\<close> on unit \<open>i\<close>.
  The specifications are given in full; \<^verbatim>\<open>predict\<close> gets no keyword parameters this
  way. Unit \<open>i\<close> meets the \<open>i\<close>-th entries of both specification lists, and a list that
  is too short raises \<^verbatim>\<open>IndexError\<close>.
\<close>

type_synonym process_spec = "bool \<times> bool \<times> bool \<times> ar_terms"
type_synonym predict_spec = "input_vars \<times> string \<times> nat \<times> train_len \<times> bool"

fun run_layer ::
  "'v env \<Rightarrow> process_spec list \<Rightarrow> predict_spec list \<Rightarrow> pystate \<Rightarrow> predictor list
     \<Rightarrow> (exn option \<times> pystate \<times> predictor list) option" where
  "run_layer g ps qs s [] = Some (None, s, [])"
| "run_layer g [] qs s (u # us) = Some (Some IndexError, s, u # us)"
| "run_layer g ((tt, ta, tg, ar) # ps) qs s (u # us) =
     (case data_process g tt ta tg ar s u of
        None \<Rightarrow> None
      | Some (Some e, s1, u1) \<Rightarrow> Some (Some e, s1, u1 # us)
      | Some (None, s1, u1) \<Rightarrow>
          (case qs of
             [] \<Rightarrow> Some (Some IndexError, s1, u1 # us)
           | (iv, meth, horizon, train_len, in_sample) # qs' \<Rightarrow>
               (case predict g iv meth horizon train_len in_sample [] s1 u1 of
                  (Some e, s2, u2) \<Rightarrow> Some (Some e, s2, u2 # us)
                | (None, s2, u2) \<Rightarrow>
                    (case run_layer g ps qs' s2 us of
                       None \<Rightarrow> None
                     | Some (r, s3, us') \<Rightarrow> Some (r, s3, u2 # us')))))"

definition init_prediction_layer ::
  "'v env \<Rightarrow> nat \<Rightarrow> string list \<Rightarrow> process_spec list \<Rightarrow> predict_spec list \<Rightarrow> pystate
     \<Rightarrow> geo_model \<Rightarrow> (exn option \<times> pystate \<times> geo_model) option" where
  "init_prediction_layer g n_models labels process_specs predict_specs s gm =
     (case layer_units labels 0 n_models s gm of
        (Some e, s1, ms) \<Rightarrow> Some (Some e, s1, gm)
      | (None, s1, ms) \<Rightarrow>
          (case run_layer g process_specs predict_specs s1 ms of
             None \<Rightarrow> None
           | Some (r, s2, ms') \<Rightarrow> Some (r, s2, gm\<lparr>model_list := map Predictor ms'\<rparr>)))"

subsection \<open>Selecting units by label\<close>

text \<open>
  The label argument of \<^verbatim>\<open>ensemble\<close> and \<^verbatim>\<open>save_predictions\<close>: a string, a list of
  strings, or an object that is no container (a number). \<^verbatim>\<open>label in labels\<close> is the
  substring test on a string, membership on a list, and raises \<^verbatim>\<open>TypeError\<close> on a
  number.
\<close>

datatype py_labels = LStr string | LList "string list" | LInt int

fun is_substring :: "string \<Rightarrow> string \<Rightarrow> bool" where
  "is_substring p [] = (p = [])"
| "is_substring p (c # cs) = (take (length p) (c # cs) = p \<or> is_substring p cs)"

fun label_in :: "string \<Rightarrow> py_labels \<Rightarrow> exn + bool" where
  "label_in l (LStr t) = Inr (is_substring l t)"
| "label_in l (LList ls) = Inr (l \<in> set ls)"
| "label_in l (LInt i) = Inl TypeError"

text \<open>\<^verbatim>\<open>[m for m in self.model_list if m.label in labels]\<close>\<close>

fun select_units :: "py_labels \<Rightarrow> unit list \<Rightarrow> exn + unit list" where
  "select_units labels [] = Inr []"
| "select_units labels (m # ms) =
     (case label_in (unit_label m) labels of
        Inl e \<Rightarrow> Inl e
      | Inr b \<Rightarrow>
          (case select_units labels ms of
             Inl e \<Rightarrow> Inl e
           | Inr r \<Rightarrow> Inr (if b then m # r else r)))"

subsection \<open>ensemble\<close>

text \<open>
  \<^verbatim>\<open>compat_pred_list = [x.predictions[2 * horizon:, None] for x in compat_list]\<close>:
  a unit that has not predicted yet holds \<^verbatim>\<open>None\<close>, whose indexing raises
  \<^verbatim>\<open>TypeError\<close>.
\<close>

fun compat_preds :: "nat \<Rightarrow> unit list \<Rightarrow> exn + matrix list" where
  "compat_preds horizon [] = Inr []"
| "compat_preds horizon (x # xs) =
     (case unit_predictions x of
        None \<Rightarrow> Inl TypeError
      | Some p \<Rightarrow>
          (case compat_preds horizon xs of
             Inl e \<Rightarrow> Inl e
           | Inr cs \<Rightarrow> Inr (column (drop (2 * horizon) p) # cs)))"

text \<open>
  \<^verbatim>\<open>Geo_model.ensemble(method, ens_label, ind_labels, horizon, train_len, in_sample)\<close>.
  Nothing guards the call of the dispatch or the report of the metrics: whatever they
  raise leaves the method.
\<close>

definition ensemble ::
  "'v env \<Rightarrow> string \<Rightarrow> string \<Rightarrow> py_labels \<Rightarrow> nat \<Rightarrow> nat \<Rightarrow> bool \<Rightarrow> pystate \<Rightarrow> geo_model
     \<Rightarrow> exn option \<times> pystate \<times> geo_model" where
  "ensemble g meth ens_lbl ind_labels horizon train_len in_sample s0 gm =
     (let s = print_if (gm_verbose gm) [S ''Running ensemble model: '', S meth] s0 in
      case select_units ind_labels (model_list gm) of
        Inl e \<Rightarrow> (Some e, s, gm)
      | Inr compat_list \<Rightarrow>
     (case compat_preds horizon compat_list of
        Inl e \<Rightarrow> (Some e, s, gm)
      | Inr compat_pred_list \<Rightarrow>
     (case hstack compat_pred_list of
        Inl e \<Rightarrow> (Some e, s, gm)
      | Inr model_stack \<Rightarrow>
     (case compat_list of
        [] \<Rightarrow> (Some IndexError, s, gm)
      | first # others \<Rightarrow>
     (case argo_functions g of
        None \<Rightarrow> (Some NameError, s, gm)
      | Some af \<Rightarrow>
     (case ensemble_dispatcher af meth of
        None \<Rightarrow> (Some KeyError, s, gm)
      | Some run \<Rightarrow>
     (case run model_stack (unit_target first) horizon train_len in_sample of
        Inl e \<Rightarrow> (Some e, s, gm)
      | Inr ens_pred \<Rightarrow>
          (let ens_tgt = (if in_sample then unit_target first
                          else drop train_len (unit_target first));
               ens_dl = (if in_sample then unit_datelist first
                         else drop train_len (unit_datelist first));
               padded = insert_nans (horizon * 2) ens_pred
           in case metrics af
                     (drop (2 * horizon) (take (length padded - (1 + horizon)) padded))
                     (drop (2 * horizon) ens_tgt) of
                (ls, Some e) \<Rightarrow> (Some e, s\<lparr>stdout := stdout s @ ls\<rparr>, gm)
              | (ls, None) \<Rightarrow>
                  (None, s\<lparr>stdout := stdout s @ ls\<rparr>,
                   gm\<lparr>model_list := model_list gm @
                        [Ens_predictor \<lparr>ens_target = ens_tgt, ens_predictions = padded,
                           ens_label = ens_lbl, ens_datelist = ens_dl\<rparr>]\<rparr>)))))))))"

subsection \<open>save_predictions\<close>

text \<open>
  The units to export. With \<^verbatim>\<open>model_labels == 'all'\<close> these are all units. Otherwise
  they are the units whose label is in \<^verbatim>\<open>model_labels\<close>; only when that test raises
  does the handler take all units and print its notice. The result is the test that
  picks the units, with the lines printed.
\<close>

definition export_selection :: "py_labels \<Rightarrow> unit list \<Rightarrow> (unit \<Rightarrow> bool) \<times> line list" where
  "export_selection model_labels ms =
     (if model_labels = LStr ''all'' then (\<lambda>m. True, [])
      else
        (case select_units model_labels ms of
           Inr r \<Rightarrow> (\<lambda>m. label_in (unit_label m) model_labels = Inr True, [])
         | Inl e \<Rightarrow>
             (\<lambda>m. True,
              [[S (CHR 0x09 # ''Error in specified model labels. Printing all models to file.'')]])))"

text \<open>
  One round of the export loop on a unit: its calendar, target and predictions are cut
  to start at the export date, in this order.
\<close>

fun set_datelist :: "date list \<Rightarrow> unit \<Rightarrow> unit" where
  "set_datelist dl (Predictor u) = Predictor (u\<lparr>datelist := dl\<rparr>)"
| "set_datelist dl (Ens_predictor e) = Ens_predictor (e\<lparr>ens_datelist := dl\<rparr>)"

fun set_target :: "array \<Rightarrow> unit \<Rightarrow> unit" where
  "set_target t (Predictor u) = Predictor (u\<lparr>target := t\<rparr>)"
| "set_target t (Ens_predictor e) = Ens_predictor (e\<lparr>ens_target := t\<rparr>)"

fun set_predictions :: "array \<Rightarrow> unit \<Rightarrow> unit" where
  "set_predictions p (Predictor u) = Predictor (u\<lparr>predictions := Some p\<rparr>)"
| "set_predictions p (Ens_predictor e) = Ens_predictor (e\<lparr>ens_predictions := p\<rparr>)"

definition export_unit :: "'v env \<Rightarrow> string \<Rightarrow> unit \<Rightarrow> (exn \<times> unit) + (unit \<times> array)" where
  "export_unit g start m =
     (case to_datetime g start of
        Inl e \<Rightarrow> Inl (e, m)
      | Inr d \<Rightarrow>
          (case index_of (unit_datelist m) d of
             Inl e \<Rightarrow> Inl (e, m)
           | Inr shift \<Rightarrow>
               (case unit_predictions m of
                  None \<Rightarrow>
                    Inl (TypeError,
                         set_target (drop shift (unit_target m))
                           (set_datelist (drop shift (unit_datelist m)) m))
                | Some p \<Rightarrow>
                    Inr (set_predictions (drop shift p)
                           (set_target (drop shift (unit_target m))
                              (set_datelist (drop shift (unit_datelist m)) m)),
                         drop shift p))))"

text \<open>
  The loop \<^verbatim>\<open>for model in s\<close> over the orchestrator's list: the units picked are
  rewritten in place, the others stay. The columns collected are named by the labels.
\<close>

fun export_units ::
  "'v env \<Rightarrow> string \<Rightarrow> (unit \<Rightarrow> bool) \<Rightarrow> unit list
     \<Rightarrow> exn option \<times> unit list \<times> (string \<times> array) list" where
  "export_units g start pick [] = (None, [], [])"
| "export_units g start pick (m # ms) =
     (if pick m then
        (case export_unit g start m of
           Inl (e, m') \<Rightarrow> (Some e, m' # ms, [])
         | Inr (m', p) \<Rightarrow>
             (case export_units g start pick ms of
                (r, ms', ps) \<Rightarrow> (r, m' # ms', (unit_label m', p) # ps)))
      else
        (case export_units g start pick ms of (r, ms', ps) \<Rightarrow> (r, m # ms', ps)))"

text \<open>The data frame written to the file: the dates, the target, one column per unit.\<close>

record table =
  time :: "date list"
  targ :: array
  preds :: "(string \<times> array) list"

text \<open>
  \<^verbatim>\<open>Geo_model.save_predictions(fname, model_labels, end_saturday)\<close>. The dates and the
  target come from \<^verbatim>\<open>s[0]\<close>, the first unit picked, which raises \<^verbatim>\<open>IndexError\<close> when
  no unit was picked.
\<close>

definition save_predictions ::
  "'v env \<Rightarrow> py_labels \<Rightarrow> bool \<Rightarrow> pystate \<Rightarrow> geo_model
     \<Rightarrow> exn option \<times> pystate \<times> geo_model \<times> table option" where
  "save_predictions g model_labels end_saturday s0 gm =
     (let s = print_if (gm_verbose gm) [S ''Saving predictions to file. ''] s0 in
      case export_selection model_labels (model_list gm) of
        (pick, ls) \<Rightarrow>
          (case export_units g (pred_start_date gm) pick (model_list gm) of
             (Some e, ms, ps) \<Rightarrow>
               (Some e, s\<lparr>stdout := stdout s @ ls\<rparr>, gm\<lparr>model_list := ms\<rparr>, None)
           | (None, ms, ps) \<Rightarrow>
               (case filter pick ms of
                  [] \<Rightarrow> (Some IndexError, s\<lparr>stdout := stdout s @ ls\<rparr>, gm\<lparr>model_list := ms\<rparr>, None)
                | first # others \<Rightarrow>
                    (None,
                     s\<lparr>stdout := stdout s @ ls @
                         [[S [CHR 0x0A], Now],
                          [S ''----------------------END-----------------------'']]\<rparr>,
                     gm\<lparr>model_list := ms\<rparr>,
                     Some \<lparr>time = (if end_saturday then map (\<lambda>x. x + 6) (unit_datelist first)
                                   else unit_datelist first),
                           targ = unit_target first, preds = ps\<rparr>))))"

section \<open>Units that do not share a dictionary\<close>

text \<open>
  The addresses of the dictionaries the units of a list hold (an \<^verbatim>\<open>Ens_predictor\<close>
  holds none). An orchestrator's units are \<open>separated\<close> when the dictionary of the
  orchestrator and the dictionaries of its units are allocated objects, all different.
\<close>

fun unit_addrs :: "unit list \<Rightarrow> nat list" where
  "unit_addrs [] = []"
| "unit_addrs (Predictor u # ms) = X u # unit_addrs ms"
| "unit_addrs (Ens_predictor e # ms) = unit_addrs ms"

definition separated :: "pystate \<Rightarrow> geo_model \<Rightarrow> bool" where
  "separated s gm =
     (list_all (\<lambda>a. a < next_addr s) (inputs gm # unit_addrs (model_list gm)) \<and>
      distinct (inputs gm # unit_addrs (model_list gm)))"

section \<open>Concrete runs\<close>

text \<open>
  Stand-ins for the imported functions, for running the model on concrete data: a
  transform that refuses zeros and missing values, a provider that returns one
  prediction per row of the design matrix after the training window, a calendar of
  three weeks, and an \<^verbatim>\<open>argo_functions\<close> module whose only ensemble method takes the
  first member's prediction.
\<close>

definition bad_cell :: "cell \<Rightarrow> bool" where
  "bad_cell c = (c = NaN \<or> c = Num 0)"

definition demo_transform :: "array \<Rightarrow> exn + array" where
  "demo_transform a =
     (if list_ex bad_cell a then Inl (OtherError ''zero or missing value'') else Inr a)"

definition demo_transform_2d :: "matrix \<Rightarrow> exn + matrix" where
  "demo_transform_2d m =
     (if list_ex (list_ex bad_cell) m then Inl (OtherError ''zero or missing value'')
      else Inr m)"

definition demo_dates :: "string \<Rightarrow> exn + date" where
  "demo_dates t =
     (if t = ''2012-12-30'' then Inr 0
      else if t = ''2013-01-06'' then Inr 7
      else if t = ''2013-01-13'' then Inr 14
      else Inl ValueError)"

definition env_written :: "unit env" where
  "env_written =
     \<lparr>logit_percent = demo_transform,
      logit_percent_2d = demo_transform_2d,
      gtlog = demo_transform_2d,
      create_ar_stack = (\<lambda>t ar. Inr (column (drop 1 t))),
      inverse_logit_percent = Inr,
      make_predictions = (\<lambda>Xs t flag meth horizon w in_sample params.
         Inr (map (\<lambda>row. Num 1) (drop w Xs))),
      to_datetime = demo_dates,
      dict_keys = (\<lambda>ks. ks),
      argo_functions = None\<rparr>"

definition first_column :: "matrix \<Rightarrow> array" where
  "first_column m = map (\<lambda>row. case row of [] \<Rightarrow> NaN | c # cs \<Rightarrow> c) m"

definition demo_argo_functions :: argo_functions_module where
  "demo_argo_functions =
     \<lparr>ensemble_dispatcher = (\<lambda>meth.
         if meth = ''median'' then Some (\<lambda>m t horizon w in_sample. Inr (first_column m))
         else None),
      metrics = (\<lambda>p t. ([], None))\<rparr>"

definition env_bound :: "unit env" where
  "env_bound = env_written\<lparr>argo_functions := Some demo_argo_functions\<rparr>"

definition env_failing_metrics :: "unit env" where
  "env_failing_metrics =
     env_written\<lparr>argo_functions :=
       Some (demo_argo_functions\<lparr>metrics := (\<lambda>p t. ([], Some (OtherError ''metrics'')))\<rparr>)\<rparr>"

definition state0 :: pystate where
  "state0 =
     \<lparr>dicts = (\<lambda>a. if a = 0 then [(''gt'', [[Num 1], [Num 2], [Num 3]])] else []),
      next_addr = 1, stdout = []\<rparr>"

definition unit0 :: predictor where
  "unit0 =
     \<lparr>X = 0, target = [Num 5, Num 6], target_reserve = [Num 5, Num 6], label = ''A'',
      start_date = ''2013-01-06'', datelist = [0, 7, 14], resolution = ''week'',
      verbose = False, transform_target = False, predictions = None\<rparr>"

text \<open>
  A unit whose target and sources all hold a zero or a missing value, so that every
  transform fails.
\<close>

definition state1 :: pystate where
  "state1 =
     \<lparr>dicts = (\<lambda>a. if a = 0
         then [(''ath'', [[NaN], [Num 2], [Num 3]]), (''gt'', [[Num 0], [Num 1], [Num 2]])]
         else []),
      next_addr = 1, stdout = []\<rparr>"

definition unit1 :: predictor where
  "unit1 = unit0\<lparr>target := [Num 0, Num 4], target_reserve := [Num 0, Num 4]\<rparr>"

text \<open>
  An orchestrator with two units that have predicted at horizon 1 (two leading
  missing-value markers each).
\<close>

definition unitA :: predictor where
  "unitA =
     \<lparr>X = 1, target = [Num 5, Num 6, Num 7], target_reserve = [Num 5, Num 6, Num 7],
      label = ''A'', start_date = ''2013-01-06'', datelist = [7, 14, 21, 28],
      resolution = ''week'', verbose = False, transform_target = False,
      predictions = Some [NaN, NaN, Num 1, Num 2]\<rparr>"

definition unitB :: predictor where
  "unitB = unitA\<lparr>X := 2, label := ''B'', predictions := Some [NaN, NaN, Num 3, Num 4]\<rparr>"

definition state2 :: pystate where
  "state2 =
     \<lparr>dicts = (\<lambda>a. if a \<le> 2 then [(''gt'', [[Num 1], [Num 2], [Num 3]])] else []),
      next_addr = 3, stdout = []\<rparr>"

definition geo0 :: geo_model where
  "geo0 =
     \<lparr>inputs = 0, gm_target = [Num 5, Num 6, Num 7], gm_datelist = [7, 14, 21, 28],
      model_list = [Predictor unitA, Predictor unitB], pred_start_date = ''2013-01-06'',
      gm_resolution = ''week'', gm_verbose = False\<rparr>"

section \<open>Facts about data_process\<close>

lemma dicts_same: "dicts s a = d \<Longrightarrow> s\<lparr>dicts := (dicts s)(a := d)\<rparr> = s"
  by auto

lemma slice_entries_str:
  "slice_entries (IdxStr t) d = (if d = [] then None else Some TypeError, d)"
  by (cases d) auto

lemma dicts_print [simp]: "dicts (print l s) = dicts s" "next_addr (print l s) = next_addr s"
  "stdout (print l s) = stdout s @ [l]"
  by (simp_all add: print_def)

lemma dicts_print_if [simp]: "dicts (print_if b l s) = dicts s"
  "next_addr (print_if b l s) = next_addr s"
  by (simp_all add: print_if_def)

lemma stdout_print_if: "stdout (print_if b l s) = stdout s @ (if b then [l] else [])"
  by (simp add: print_if_def)

lemma set_item_simps [simp]: "stdout (set_item a k v s) = stdout s"
  "next_addr (set_item a k v s) = next_addr s"
  "dicts (set_item a k v s) = (dicts s)(a := AList.update k v (dicts s a))"
  by (simp_all add: set_item_def)

lemma dp_ath_unit: "snd (dp_ath g ta s u) = u"
  by (simp add: dp_ath_def split: option.splits sum.splits)

lemma dp_gt_unit: "snd (dp_gt g tg s u) = u"
  by (simp add: dp_gt_def split: option.splits sum.splits)

lemma dp_ath_stdout: "\<exists>ls. stdout (fst (dp_ath g ta s u)) = stdout s @ ls"
  by (simp add: dp_ath_def stdout_print_if split: option.splits sum.splits)

lemma dp_gt_stdout: "\<exists>ls. stdout (fst (dp_gt g tg s u)) = stdout s @ ls"
  by (simp add: dp_gt_def stdout_print_if split: option.splits sum.splits)

lemma ar_block_stdout: "ar_block g ar s u = Some s' \<Longrightarrow> \<exists>ls. stdout s' = stdout s @ ls"
  by (auto simp: ar_block_def stdout_print_if split: option.splits sum.splits)

lemma dp_ar_stdout: "dp_ar g ar s u = Some (r, s', u') \<Longrightarrow> \<exists>ls. stdout s' = stdout s @ ls"
  by (auto simp: dp_ar_def split: if_splits option.splits sum.splits prod.splits
      dest!: ar_block_stdout)

lemma dp_ar_flag: "dp_ar g ar s u = Some (r, s', u') \<Longrightarrow> transform_target u' = transform_target u"
  by (auto simp: dp_ar_def split: if_splits option.splits sum.splits prod.splits)

lemma py_from_drop: "\<exists>k. py_from i xs = drop k xs"
  by (auto simp: py_from_def)

lemma py_slice_from_drop: "py_slice_from i xs = Inr ys \<Longrightarrow> \<exists>k. ys = drop k xs"
  by (cases i) (auto simp: py_from_drop)

lemma dp_ar_target: "dp_ar g ar s u = Some (r, s', u') \<Longrightarrow> \<exists>k. target u' = drop k (target u)"
  by (auto simp: dp_ar_def split: if_splits option.splits sum.splits prod.splits
      dest: py_slice_from_drop intro: exI[of _ 0])



lemma slice_entries_suffix:
  "slice_entries i d = (r, d') \<Longrightarrow> map_of d k = Some v \<Longrightarrow> \<exists>j. map_of d' k = Some (drop j v)"
proof (induction d arbitrary: r d')
  case Nil
  then show ?case by simp
next
  case (Cons kv d)
  obtain k0 v0 where kv: "kv = (k0, v0)" by (cases kv)
  show ?case
  proof (cases "py_slice_from i v0")
    case (Inl e)
    with Cons.prems kv show ?thesis by (auto intro: exI[of _ 0])
  next
    case (Inr v1)
    obtain r1 d1 where rec: "slice_entries i d = (r1, d1)" by (cases "slice_entries i d")
    from Inr obtain j0 where j0: "v1 = drop j0 v0" by (auto dest: py_slice_from_drop)
    show ?thesis
    proof (cases "k0 = k")
      case True
      with Cons.prems kv Inr rec j0 show ?thesis by auto
    next
      case False
      with Cons.prems kv have "map_of d k = Some v" by simp
      from Cons.IH[OF rec this] obtain j where "map_of d1 k = Some (drop j v)" by blast
      with Cons.prems kv Inr rec False show ?thesis by auto
    qed
  qed
qed

lemma ar_trim_result_aux:
  assumes "ar_trim keys d = Some y"
  shows "\<forall>d'. y = Inr d' \<longrightarrow> d' = d \<or> (\<exists>a. d' = AList.update ''ar'' a d)"
  by (rule ar_trim.raw_induct[OF _ assms])
     (auto split: if_splits list.splits option.splits)

lemma ar_trim_result:
  "ar_trim keys d = Some (Inr d') \<Longrightarrow> d' = d \<or> (\<exists>a. d' = AList.update ''ar'' a d)"
  using ar_trim_result_aux by blast

lemma ar_block_other_keys:
  "ar_block g ar s u = Some s' \<Longrightarrow> k \<noteq> ''ar'' \<Longrightarrow>
   map_of (dicts s' (X u)) k = map_of (dicts s (X u)) k"
  by (auto simp: ar_block_def stdout_print_if update_conv' split: option.splits sum.splits
      dest!: ar_trim_result)


lemma dp_ar_X: "dp_ar g ar s u = Some (r, s', u') \<Longrightarrow> X u' = X u"
  by (auto simp: dp_ar_def split: if_splits option.splits sum.splits prod.splits)

lemma dp_ar_entry:
  assumes "dp_ar g ar s u = Some (r, s', u')" and "k \<noteq> ''ar''"
    and "map_of (dicts s (X u)) k = Some v"
  shows "\<exists>j. map_of (dicts s' (X u)) k = Some (drop j v)"
proof (cases "truthy ar")
  case False
  with assms show ?thesis by (auto simp: dp_ar_def intro: exI[of _ 0])
next
  case True
  show ?thesis
  proof (cases "discard_of ar")
    case (Inl e)
    with True assms show ?thesis by (auto simp: dp_ar_def intro: exI[of _ 0])
  next
    case (Inr i)
    obtain r1 d1 where sl: "slice_entries i (dicts s (X u)) = (r1, d1)"
      by (cases "slice_entries i (dicts s (X u))")
    from slice_entries_suffix[OF sl assms(3)] obtain j where j: "map_of d1 k = Some (drop j v)"
      by blast
    from True Inr sl assms(1,2) j show ?thesis
      by (auto simp: dp_ar_def split: option.splits sum.splits dest!: ar_block_other_keys)
  qed
qed

lemma dp_target_dicts: "dicts (fst (dp_target g tt s u)) = dicts s" "X (snd (dp_target g tt s u)) = X u"
  by (simp_all add: dp_target_def split: sum.splits)

lemma dp_target_stdout: "\<exists>ls. stdout (fst (dp_target g tt s u)) = stdout s @ ls"
  by (simp add: dp_target_def stdout_print_if split: sum.splits)

lemma dp_ath_other: "k \<noteq> ''ath'' \<Longrightarrow>
  map_of (dicts (fst (dp_ath g ta s u)) (X u)) k = map_of (dicts s (X u)) k"
  by (simp add: dp_ath_def update_conv' split: option.splits sum.splits)

lemma dp_gt_other: "k \<noteq> ''gt'' \<Longrightarrow>
  map_of (dicts (fst (dp_gt g tg s u)) (X u)) k = map_of (dicts s (X u)) k"
  by (simp add: dp_gt_def update_conv' split: option.splits sum.splits)

lemma dp_target_fails:
  "logit_percent g (target u) = Inl e \<Longrightarrow>
   dp_target g True s u =
     (print [S (CHR 0x09 # ''Error: target may contain 0 or NaNs.''), E e] s,
      u\<lparr>transform_target := False\<rparr>)"
  by (simp add: dp_target_def)

lemma dp_ath_fails:
  "map_of (dicts s (X u)) ''ath'' = Some a \<Longrightarrow> logit_percent_2d g a = Inl e \<Longrightarrow>
   dp_ath g True s u =
     (print [S (CHR 0x09 # ''Error: athenahealth data may contain 0 or NaNs.''), E e] s, u)"
  by (simp add: dp_ath_def)

lemma dp_gt_fails:
  "map_of (dicts s (X u)) ''gt'' = Some a \<Longrightarrow> gtlog g a = Inl e \<Longrightarrow>
   dp_gt g True s u =
     (print [S (CHR 0x09 # ''Error: GT data may contain 0 or NaNs.''), E e] s, u)"
  by (simp add: dp_gt_def)

lemma target_failure:
  assumes "logit_percent g (target u) = Inl e"
  shows "data_process g True ta tg ar s u =
      (case dp_ath g ta
              (print [S (CHR 0x09 # ''Error: target may contain 0 or NaNs.''), E e]
                 (print_if (verbose u) [S (''Processing data for '' @ label u @ '': '')] s))
              (u\<lparr>transform_target := False\<rparr>) of
         (s2, u2) \<Rightarrow> (case dp_gt g tg s2 u2 of (s3, u3) \<Rightarrow> dp_ar g ar s3 u3))"
    and "data_process g True ta tg ar s u = Some (r, s', u') \<Longrightarrow>
      transform_target u' = False \<and> (\<exists>k. target u' = drop k (target u)) \<and>
      [S (CHR 0x09 # ''Error: target may contain 0 or NaNs.''), E e] \<in> set (stdout s')"
proof -
  let ?s1 = "print [S (CHR 0x09 # ''Error: target may contain 0 or NaNs.''), E e]
                 (print_if (verbose u) [S (''Processing data for '' @ label u @ '': '')] s)"
  let ?u1 = "u\<lparr>transform_target := False\<rparr>"
  show eq: "data_process g True ta tg ar s u =
      (case dp_ath g ta ?s1 ?u1 of
         (s2, u2) \<Rightarrow> (case dp_gt g tg s2 u2 of (s3, u3) \<Rightarrow> dp_ar g ar s3 u3))"
    using assms by (simp add: data_process_def dp_target_fails)
  assume res: "data_process g True ta tg ar s u = Some (r, s', u')"
  obtain s2 where s2: "dp_ath g ta ?s1 ?u1 = (s2, ?u1)"
    using dp_ath_unit[of g ta ?s1 ?u1] by (cases "dp_ath g ta ?s1 ?u1") simp
  obtain s3 where s3: "dp_gt g tg s2 ?u1 = (s3, ?u1)"
    using dp_gt_unit[of g tg s2 ?u1] by (cases "dp_gt g tg s2 ?u1") simp
  from res eq s2 s3 have ar: "dp_ar g ar s3 ?u1 = Some (r, s', u')" by simp
  have "[S (CHR 0x09 # ''Error: target may contain 0 or NaNs.''), E e] \<in> set (stdout ?s1)"
    by simp
  moreover obtain l2 where "stdout s2 = stdout ?s1 @ l2"
    using dp_ath_stdout[of g ta ?s1 ?u1] s2 by auto
  moreover obtain l3 where "stdout s3 = stdout s2 @ l3"
    using dp_gt_stdout[of g tg s2 ?u1] s3 by auto
  moreover obtain l4 where "stdout s' = stdout s3 @ l4"
    using dp_ar_stdout[OF ar] by auto
  ultimately have "[S (CHR 0x09 # ''Error: target may contain 0 or NaNs.''), E e] \<in> set (stdout s')"
    by simp
  with dp_ar_flag[OF ar] dp_ar_target[OF ar]
  show "transform_target u' = False \<and> (\<exists>k. target u' = drop k (target u)) \<and>
      [S (CHR 0x09 # ''Error: target may contain 0 or NaNs.''), E e] \<in> set (stdout s')"
    by simp
qed


lemma ath_failure:
  assumes a: "map_of (dicts s (X u)) ''ath'' = Some a" and f: "logit_percent_2d g a = Inl e"
  shows "data_process g tt True tg ar s u =
      (case dp_target g tt
              (print_if (verbose u) [S (''Processing data for '' @ label u @ '': '')] s) u of
         (s1, u1) \<Rightarrow>
           (case dp_gt g tg
                   (print [S (CHR 0x09 # ''Error: athenahealth data may contain 0 or NaNs.''),
                           E e] s1) u1 of
              (s3, u3) \<Rightarrow> dp_ar g ar s3 u3))"
    and "data_process g tt True tg ar s u = Some (r, s', u') \<Longrightarrow>
      (\<exists>j. map_of (dicts s' (X u)) ''ath'' = Some (drop j a)) \<and>
      [S (CHR 0x09 # ''Error: athenahealth data may contain 0 or NaNs.''), E e] \<in> set (stdout s')"
proof -
  let ?s0 = "print_if (verbose u) [S (''Processing data for '' @ label u @ '': '')] s"
  let ?err = "[S (CHR 0x09 # ''Error: athenahealth data may contain 0 or NaNs.''), E e]"
  obtain s1 u1 where t: "dp_target g tt ?s0 u = (s1, u1)" by (cases "dp_target g tt ?s0 u")
  from t have d1: "dicts s1 = dicts s" and x1: "X u1 = X u"
    using dp_target_dicts[of g tt ?s0 u] by simp_all
  from a d1 x1 have a1: "map_of (dicts s1 (X u1)) ''ath'' = Some a" by simp
  have step: "dp_ath g True s1 u1 = (print ?err s1, u1)"
    by (rule dp_ath_fails[OF a1 f])
  show eq: "data_process g tt True tg ar s u =
      (case dp_target g tt ?s0 u of
         (s1, u1) \<Rightarrow> (case dp_gt g tg (print ?err s1) u1 of (s3, u3) \<Rightarrow> dp_ar g ar s3 u3))"
    using t step by (simp add: data_process_def)
  assume res: "data_process g tt True tg ar s u = Some (r, s', u')"
  obtain s3 where s3: "dp_gt g tg (print ?err s1) u1 = (s3, u1)"
    using dp_gt_unit[of g tg "print ?err s1" u1] by (cases "dp_gt g tg (print ?err s1) u1") simp
  from res eq t s3 have ar: "dp_ar g ar s3 u1 = Some (r, s', u')" by simp
  have "map_of (dicts s3 (X u1)) ''ath'' = map_of (dicts (print ?err s1) (X u1)) ''ath''"
    using dp_gt_other[of "''ath''" g tg "print ?err s1" u1] s3 by simp
  with a1 have "map_of (dicts s3 (X u1)) ''ath'' = Some a" by simp
  from dp_ar_entry[OF ar _ this] x1
  have suffix: "\<exists>j. map_of (dicts s' (X u)) ''ath'' = Some (drop j a)" by simp
  have "?err \<in> set (stdout (print ?err s1))" by simp
  moreover obtain l3 where "stdout s3 = stdout (print ?err s1) @ l3"
    using dp_gt_stdout[of g tg "print ?err s1" u1] s3 by auto
  moreover obtain l4 where "stdout s' = stdout s3 @ l4"
    using dp_ar_stdout[OF ar] by auto
  ultimately have "?err \<in> set (stdout s')" by simp
  with suffix show "(\<exists>j. map_of (dicts s' (X u)) ''ath'' = Some (drop j a)) \<and> ?err \<in> set (stdout s')"
    by simp
qed

lemma gt_failure:
  assumes a: "map_of (dicts s (X u)) ''gt'' = Some a" and f: "gtlog g a = Inl e"
  shows "data_process g tt ta True ar s u =
      (case dp_target g tt
              (print_if (verbose u) [S (''Processing data for '' @ label u @ '': '')] s) u of
         (s1, u1) \<Rightarrow>
           (case dp_ath g ta s1 u1 of
              (s2, u2) \<Rightarrow>
                dp_ar g ar
                  (print [S (CHR 0x09 # ''Error: GT data may contain 0 or NaNs.''), E e] s2) u2))"
    and "data_process g tt ta True ar s u = Some (r, s', u') \<Longrightarrow>
      (\<exists>j. map_of (dicts s' (X u)) ''gt'' = Some (drop j a)) \<and>
      [S (CHR 0x09 # ''Error: GT data may contain 0 or NaNs.''), E e] \<in> set (stdout s')"
proof -
  let ?s0 = "print_if (verbose u) [S (''Processing data for '' @ label u @ '': '')] s"
  let ?err = "[S (CHR 0x09 # ''Error: GT data may contain 0 or NaNs.''), E e]"
  obtain s1 u1 where t: "dp_target g tt ?s0 u = (s1, u1)" by (cases "dp_target g tt ?s0 u")
  from t have d1: "dicts s1 = dicts s" and x1: "X u1 = X u"
    using dp_target_dicts[of g tt ?s0 u] by simp_all
  obtain s2 where s2: "dp_ath g ta s1 u1 = (s2, u1)"
    using dp_ath_unit[of g ta s1 u1] by (cases "dp_ath g ta s1 u1") simp
  have "map_of (dicts s2 (X u1)) ''gt'' = map_of (dicts s1 (X u1)) ''gt''"
    using dp_ath_other[of "''gt''" g ta s1 u1] s2 by simp
  with a d1 x1 have a2: "map_of (dicts s2 (X u1)) ''gt'' = Some a" by simp
  have step: "dp_gt g True s2 u1 = (print ?err s2, u1)"
    by (rule dp_gt_fails[OF a2 f])
  show eq: "data_process g tt ta True ar s u =
      (case dp_target g tt ?s0 u of
         (s1, u1) \<Rightarrow> (case dp_ath g ta s1 u1 of (s2, u2) \<Rightarrow> dp_ar g ar (print ?err s2) u2))"
    using t s2 step by (simp add: data_process_def)
  assume res: "data_process g tt ta True ar s u = Some (r, s', u')"
  from res eq t s2 have ar: "dp_ar g ar (print ?err s2) u1 = Some (r, s', u')" by simp
  from a2 have "map_of (dicts (print ?err s2) (X u1)) ''gt'' = Some a" by simp
  from dp_ar_entry[OF ar _ this] x1
  have suffix: "\<exists>j. map_of (dicts s' (X u)) ''gt'' = Some (drop j a)" by simp
  obtain l4 where "stdout s' = stdout (print ?err s2) @ l4"
    using dp_ar_stdout[OF ar] by auto
  then have "?err \<in> set (stdout s')" by simp
  with suffix show "(\<exists>j. map_of (dicts s' (X u)) ''gt'' = Some (drop j a)) \<and> ?err \<in> set (stdout s')"
    by simp
qed

section \<open>Facts about predict\<close>

lemma index_of_lt: "index_of xs x = Inr i \<Longrightarrow> i < length xs \<and> xs ! i = x"
  by (induction xs arbitrary: i) (auto split: if_splits sum.splits)

lemma post_predict_completes:
  "post_predict g horizon w in_sample raw s u = (None, s', u') \<Longrightarrow>
   \<exists>p t. (if transform_target u
            then inverse_logit_percent g raw = Inr p \<and> inverse_logit_percent g (target u) = Inr t
            else p = raw \<and> t = target u) \<and>
     u' = u\<lparr>target := (if in_sample then t else drop w t),
            predictions := Some (insert_nans (horizon * 2) p)\<rparr>"
  by (auto simp: post_predict_def split: if_splits sum.splits prod.splits)

lemma post_predict_no_transform:
  "\<not> transform_target u \<Longrightarrow> fst (post_predict g horizon w in_sample raw s u) = None"
  by (simp add: post_predict_def)

lemma predict_reaches_provider:
  assumes "stack_inputs iv (dicts s (X u)) = Inr Xs"
    and "to_datetime g (start_date u) = Inr d"
    and "index_of (datelist u) d = Inr shift"
    and "resolve_train_len train_len (resolution u) = Some w"
    and "w \<le> shift"
  shows "predict g iv meth horizon train_len in_sample params s u =
      (case make_predictions g (drop (shift - w) Xs) (drop (shift - w) (target u))
              (transform_target u) meth horizon w in_sample params of
         Inl e \<Rightarrow>
           (Some e,
            (predict_report u horizon in_sample shift (shift - w)
                (if in_sample then shift - w else shift) Xs
                (print_if (verbose u)
                   [S (''Running method for '' @ label u @ '': ''), S meth] s)),
            (u\<lparr>target := drop (shift - w) (target u),
                target_reserve := drop (shift - w) (target_reserve u),
                datelist := drop (if in_sample then shift - w else shift) (datelist u)\<rparr>))
       | Inr raw \<Rightarrow>
           post_predict g horizon w in_sample raw
             (predict_report u horizon in_sample shift (shift - w)
                (if in_sample then shift - w else shift) Xs
                (print_if (verbose u)
                   [S (''Running method for '' @ label u @ '': ''), S meth] s))
             (u\<lparr>target := drop (shift - w) (target u),
                target_reserve := drop (shift - w) (target_reserve u),
                datelist := drop (if in_sample then shift - w else shift) (datelist u)\<rparr>))"
  using assms by (cases in_sample) (simp_all add: predict_def Let_def split: sum.splits)

lemma predict_completes:
  assumes res: "predict g iv meth horizon train_len in_sample params s u = (None, s', u')"
  shows "\<exists>Xs d shift w raw.
     stack_inputs iv (dicts s (X u)) = Inr Xs \<and>
     to_datetime g (start_date u) = Inr d \<and>
     index_of (datelist u) d = Inr shift \<and>
     resolve_train_len train_len (resolution u) = Some w \<and> w \<le> shift \<and>
     make_predictions g (drop (shift - w) Xs) (drop (shift - w) (target u))
        (transform_target u) meth horizon w in_sample params = Inr raw \<and>
     post_predict g horizon w in_sample raw
        (predict_report u horizon in_sample shift (shift - w)
                (if in_sample then shift - w else shift) Xs
                (print_if (verbose u)
                   [S (''Running method for '' @ label u @ '': ''), S meth] s))
        (u\<lparr>target := drop (shift - w) (target u),
                target_reserve := drop (shift - w) (target_reserve u),
                datelist := drop (if in_sample then shift - w else shift) (datelist u)\<rparr>) = (None, s', u')"
proof -
  obtain Xs where 1: "stack_inputs iv (dicts s (X u)) = Inr Xs"
    using res by (cases "stack_inputs iv (dicts s (X u))") (simp_all add: predict_def Let_def)
  obtain d where 2: "to_datetime g (start_date u) = Inr d"
    using res 1 by (cases "to_datetime g (start_date u)") (simp_all add: predict_def Let_def)
  obtain shift where 3: "index_of (datelist u) d = Inr shift"
    using res 1 2 by (cases "index_of (datelist u) d") (simp_all add: predict_def Let_def)
  obtain w where 4: "resolve_train_len train_len (resolution u) = Some w"
    using res 1 2 3
    by (cases "resolve_train_len train_len (resolution u)") (simp_all add: predict_def Let_def)
  have 5: "w \<le> shift"
  proof (rule ccontr)
    assume "\<not> w \<le> shift"
    then have "int shift - int w < 0" by simp
    with res 1 2 3 4 show False by (simp add: predict_def Let_def)
  qed
  note eq = predict_reaches_provider[OF 1 2 3 4 5, of meth horizon in_sample params]
  obtain raw where 6: "make_predictions g (drop (shift - w) Xs) (drop (shift - w) (target u))
        (transform_target u) meth horizon w in_sample params = Inr raw"
    using res eq
    by (cases "make_predictions g (drop (shift - w) Xs) (drop (shift - w) (target u))
        (transform_target u) meth horizon w in_sample params") simp_all
  from res eq 6 have "post_predict g horizon w in_sample raw
        (predict_report u horizon in_sample shift (shift - w)
                (if in_sample then shift - w else shift) Xs
                (print_if (verbose u)
                   [S (''Running method for '' @ label u @ '': ''), S meth] s))
        (u\<lparr>target := drop (shift - w) (target u),
                target_reserve := drop (shift - w) (target_reserve u),
                datelist := drop (if in_sample then shift - w else shift) (datelist u)\<rparr>) = (None, s', u')"
    by simp
  with 1 2 3 4 5 6 show ?thesis by blast
qed

lemma predict_insufficient:
  assumes "stack_inputs iv (dicts s (X u)) = Inr Xs"
    and "to_datetime g (start_date u) = Inr d"
    and "index_of (datelist u) d = Inr shift"
    and "resolve_train_len train_len (resolution u) = Some w"
    and "int shift - int w < 0"
  shows "predict g iv meth horizon train_len in_sample params s u =
    (Some AssertionError,
     print_if (verbose u) [S (''Running method for '' @ label u @ '': ''), S meth] s, u)"
  using assms by (simp add: predict_def Let_def)

section \<open>Facts about the end of predict and about ensemble\<close>

lemma post_predict_fields:
  "post_predict g horizon w in_sample raw s u = (None, s', u') \<Longrightarrow>
   \<exists>p t. (if transform_target u
            then inverse_logit_percent g raw = Inr p \<and> inverse_logit_percent g (target u) = Inr t
            else p = raw \<and> t = target u) \<and>
     target u' = (if in_sample then t else drop w t) \<and>
     predictions u' = Some (replicate (2 * horizon) NaN @ p) \<and>
     datelist u' = datelist u \<and> target_reserve u' = target_reserve u \<and> X u' = X u"
  by (auto simp: post_predict_def insert_nans_def mult.commute
      split: if_splits sum.splits prod.splits)

lemma ensemble_completes:
  assumes res: "ensemble g meth lbl labels horizon w in_sample s gm = (None, s', gm')"
  shows "\<exists>first others cps M af run ens_pred.
     select_units labels (model_list gm) = Inr (first # others) \<and>
     compat_preds horizon (first # others) = Inr cps \<and>
     hstack cps = Inr M \<and>
     argo_functions g = Some af \<and>
     ensemble_dispatcher af meth = Some run \<and>
     run M (unit_target first) horizon w in_sample = Inr ens_pred \<and>
     gm' = gm\<lparr>model_list := model_list gm @
       [Ens_predictor
          \<lparr>ens_target = (if in_sample then unit_target first else drop w (unit_target first)),
           ens_predictions = insert_nans (horizon * 2) ens_pred,
           ens_label = lbl,
           ens_datelist = (if in_sample then unit_datelist first
                           else drop w (unit_datelist first))\<rparr>]\<rparr>"
proof -
  obtain cl where 1: "select_units labels (model_list gm) = Inr cl"
    using res by (cases "select_units labels (model_list gm)") (simp_all add: ensemble_def Let_def)
  obtain cps where 2: "compat_preds horizon cl = Inr cps"
    using res 1 by (cases "compat_preds horizon cl") (simp_all add: ensemble_def Let_def)
  obtain M where 3: "hstack cps = Inr M"
    using res 1 2 by (cases "hstack cps") (simp_all add: ensemble_def Let_def)
  obtain first others where 4: "cl = first # others"
    using res 1 2 3 by (cases cl) (simp_all add: ensemble_def Let_def)
  obtain af where 5: "argo_functions g = Some af"
    using res 1 2 3 4 by (cases "argo_functions g") (simp_all add: ensemble_def Let_def)
  obtain run where 6: "ensemble_dispatcher af meth = Some run"
    using res 1 2 3 4 5 by (cases "ensemble_dispatcher af meth") (simp_all add: ensemble_def Let_def)
  obtain ens_pred where 7: "run M (unit_target first) horizon w in_sample = Inr ens_pred"
    using res 1 2 3 4 5 6
    by (cases "run M (unit_target first) horizon w in_sample") (simp_all add: ensemble_def Let_def)
  from res 1 2 3 4 5 6 7 have "gm' = gm\<lparr>model_list := model_list gm @
       [Ens_predictor
          \<lparr>ens_target = (if in_sample then unit_target first else drop w (unit_target first)),
           ens_predictions = insert_nans (horizon * 2) ens_pred,
           ens_label = lbl,
           ens_datelist = (if in_sample then unit_datelist first
                           else drop w (unit_datelist first))\<rparr>]\<rparr>"
    by (cases in_sample)
       (auto simp: ensemble_def Let_def split: prod.splits option.splits)
  with 1 2 3 4 5 6 7 show ?thesis by blast
qed

lemma ensemble_fails_unchanged:
  "ensemble g meth lbl labels horizon w in_sample s gm = (Some e, s', gm') \<Longrightarrow> gm' = gm"
  by (auto simp: ensemble_def Let_def split: sum.splits list.splits option.splits prod.splits)

section \<open>Facts about selection, stacking and the metrics\<close>

lemma select_units_list:
  "select_units (LList ls) ms = Inr (filter (\<lambda>m. unit_label m \<in> set ls) ms)"
  by (induction ms) auto

lemma compat_preds_columns:
  "compat_preds horizon cl = Inr cps \<Longrightarrow>
   \<exists>ps. map unit_predictions cl = map Some ps \<and>
        cps = map (\<lambda>p. column (drop (2 * horizon) p)) ps"
proof (induction cl arbitrary: cps)
  case Nil
  then show ?case by simp
next
  case (Cons x cl)
  from Cons.prems obtain p cs where p: "unit_predictions x = Some p"
    and cs: "compat_preds horizon cl = Inr cs"
    and cps: "cps = column (drop (2 * horizon) p) # cs"
    by (auto split: option.splits sum.splits)
  from Cons.IH[OF cs] obtain ps where "map unit_predictions cl = map Some ps"
    and "cs = map (\<lambda>p. column (drop (2 * horizon) p)) ps" by blast
  with p cps have "map unit_predictions (x # cl) = map Some (p # ps) \<and>
        cps = map (\<lambda>p. column (drop (2 * horizon) p)) (p # ps)" by simp
  then show ?case by blast
qed

lemma foldl_map2_rows:
  "list_all (\<lambda>x. length x = length acc) ms \<Longrightarrow>
   length (foldl (\<lambda>acc x. map2 (@) acc x) acc ms) = length acc \<and>
   (\<forall>i < length acc.
      foldl (\<lambda>acc x. map2 (@) acc x) acc ms ! i = acc ! i @ concat (map (\<lambda>x. x ! i) ms))"
proof (induction ms arbitrary: acc)
  case Nil
  then show ?case by simp
next
  case (Cons m ms)
  from Cons.prems have lm: "length m = length acc"
    and rest: "list_all (\<lambda>x. length x = length acc) ms" by simp_all
  let ?acc = "map2 (@) acc m"
  have la: "length ?acc = length acc" using lm by simp
  from rest la have "list_all (\<lambda>x. length x = length ?acc) ms" by simp
  from Cons.IH[OF this] la lm show ?case by (auto simp: nth_append)
qed

lemma hstack_columns:
  assumes "hstack (map column cs) = Inr M"
  shows "cs \<noteq> [] \<and> list_all (\<lambda>c. length c = length M) cs \<and>
         (\<forall>i < length M. M ! i = map (\<lambda>c. c ! i) cs)"
proof (cases cs)
  case Nil
  with assms show ?thesis by simp
next
  case (Cons c cs')
  with assms have all: "list_all (\<lambda>x. length x = length (column c)) (map column cs')"
    and M: "M = foldl (\<lambda>acc x. map2 (@) acc x) (column c) (map column cs')"
    by (auto split: if_splits)
  from foldl_map2_rows[OF all] M have len: "length M = length c"
    and rows: "\<forall>i < length c. M ! i = column c ! i @ concat (map (\<lambda>x. x ! i) (map column cs'))"
    by (simp_all add: column_def)
  from all len have lens: "list_all (\<lambda>c'. length c' = length M) cs'"
    by (simp add: column_def list_all_iff)
  have "M ! i = map (\<lambda>c. c ! i) (c # cs')" if "i < length M" for i
  proof -
    from that len rows have "M ! i = column c ! i @ concat (map (\<lambda>x. x ! i) (map column cs'))"
      by simp
    moreover have "column c ! i = [c ! i]" using that len by (simp add: column_def)
    moreover have "concat (map (\<lambda>x. x ! i) (map column cs')) = map (\<lambda>c. c ! i) cs'"
      using lens that by (induction cs') (auto simp: column_def)
    ultimately show ?thesis by simp
  qed
  with Cons len lens show ?thesis by simp
qed

lemma ensemble_unbound:
  assumes "argo_functions g = None"
  shows "\<exists>e. ensemble g meth lbl labels horizon w in_sample s gm =
            (Some e, print_if (gm_verbose gm) [S ''Running ensemble model: '', S meth] s, gm)"
  using assms
  by (auto simp: ensemble_def Let_def split: sum.splits list.splits)

lemma ensemble_unbound_name:
  assumes "argo_functions g = None"
    and "select_units labels (model_list gm) = Inr cl"
    and "compat_preds horizon cl = Inr cps"
    and "hstack cps = Inr M"
  shows "ensemble g meth lbl labels horizon w in_sample s gm =
            (Some NameError, print_if (gm_verbose gm) [S ''Running ensemble model: '', S meth] s, gm)"
proof -
  from assms(3,4) have "cl \<noteq> []" by (cases cl) auto
  then obtain first others where "cl = first # others" by (cases cl) auto
  with assms show ?thesis by (simp add: ensemble_def Let_def)
qed


lemma post_predict_ignores_metrics:
  "fst (post_predict (g\<lparr>argo_functions := af\<rparr>) horizon w in_sample raw s u) =
     fst (post_predict g horizon w in_sample raw s' u) \<and>
   snd (snd (post_predict (g\<lparr>argo_functions := af\<rparr>) horizon w in_sample raw s u)) =
     snd (snd (post_predict g horizon w in_sample raw s' u))"
  by (simp add: post_predict_def split: sum.splits)

lemma predict_ignores_metrics:
  "fst (predict (g\<lparr>argo_functions := af\<rparr>) iv meth horizon train_len in_sample params s u) =
     fst (predict g iv meth horizon train_len in_sample params s u) \<and>
   snd (snd (predict (g\<lparr>argo_functions := af\<rparr>) iv meth horizon train_len in_sample params s u)) =
     snd (snd (predict g iv meth horizon train_len in_sample params s u))"
proof (cases "stack_inputs iv (dicts s (X u))")
  case (Inl e)
  then show ?thesis by (simp add: predict_def Let_def)
next
  case st: (Inr Xs)
  show ?thesis
  proof (cases "to_datetime g (start_date u)")
    case (Inl e)
    with st show ?thesis by (simp add: predict_def Let_def)
  next
    case dt: (Inr d)
    show ?thesis
    proof (cases "index_of (datelist u) d")
      case (Inl e)
      with st dt show ?thesis by (simp add: predict_def Let_def)
    next
      case ix: (Inr shift)
      show ?thesis
      proof (cases "resolve_train_len train_len (resolution u)")
        case None
        with st dt ix show ?thesis by (simp add: predict_def Let_def)
      next
        case wd: (Some w)
        show ?thesis
        proof (cases "w \<le> shift")
          case False
          then have "int shift - int w < 0" by simp
          with st dt ix wd show ?thesis by (simp add: predict_def Let_def)
        next
          case True
          have dt': "to_datetime (g\<lparr>argo_functions := af\<rparr>) (start_date u) = Inr d"
            using dt by simp
          note a = predict_reaches_provider[OF st dt ix wd True, of meth horizon in_sample params]
          note b = predict_reaches_provider[OF st dt' ix wd True, of meth horizon in_sample params]
          show ?thesis
            unfolding a b using post_predict_ignores_metrics[where g = g and af = af]
            by (cases "make_predictions g (drop (shift - w) Xs) (drop (shift - w) (target u))
                  (transform_target u) meth horizon w in_sample params") simp_all
        qed
      qed
    qed
  qed
qed

section \<open>The claims about data_process\<close>

text \<open>
  Claim C10. \<^verbatim>\<open>data_process\<close> called with \<^verbatim>\<open>AR_terms\<close> left at its default does not
  skip the autoregressive block: the default is the string \<^verbatim>\<open>'None'\<close>, which is true
  in a condition, so the block is entered; the number of rows to discard is
  \<^verbatim>\<open>max('None')\<close>, the character \<^verbatim>\<open>'o'\<close>; slicing the first input array with it
  raises, and the call ends with that exception. With the value \<^verbatim>\<open>None\<close> the block is
  skipped and inputs, calendar and target stay as they are. (When the unit holds no
  input array at all, the slice of the calendar on the next line raises the same
  exception.)
\<close>

theorem default_AR_terms_enters_AR_block:
  "truthy AR_terms_default \<and>
   discard_of AR_terms_default = Inr (IdxStr ''o'') \<and>
   slice_entries (IdxStr ''o'') ((k, v) # kvs) = (Some TypeError, (k, v) # kvs) \<and>
   dp_ar g AR_terms_default s u = Some (Some TypeError, s, u) \<and>
   (\<exists>s' u'. data_process g tt ta tg AR_terms_default s u = Some (Some TypeError, s', u')) \<and>
   dp_ar g PyNone s u = Some (None, s, u)"
proof -
  have d: "discard_of AR_terms_default = Inr (IdxStr ''o'')"
    by (simp add: AR_terms_default_def less_eq_char_def max_def)
  have a: "dp_ar g AR_terms_default s u = Some (Some TypeError, s, u)" for s :: pystate and u
    using d by (simp add: dp_ar_def AR_terms_default_def slice_entries_str dicts_same)
  have "\<exists>s' u'. data_process g tt ta tg AR_terms_default s u = Some (Some TypeError, s', u')"
    by (simp add: data_process_def a split: prod.splits)
  with d a show ?thesis
    by (simp add: AR_terms_default_def dp_ar_def)
qed

text \<open>The same on the unit \<open>unit0\<close>.\<close>

theorem default_AR_terms_enters_AR_block_witness:
  "data_process env_written False False False AR_terms_default state0 unit0 =
     Some (Some TypeError, state0, unit0) \<and>
   data_process env_written False False False PyNone state0 unit0 =
     Some (None, state0, unit0)"
  using default_AR_terms_enters_AR_block[of "''gt''" "[[Num 1], [Num 2], [Num 3]]" "[]"
      env_written state0 unit0 False False False]
  by (simp add: data_process_def dp_target_def dp_ath_def dp_gt_def print_if_def unit0_def)

text \<open>
  Claim C8. When a requested transform raises (the series holds a zero or a missing
  value), \<^verbatim>\<open>data_process\<close> catches the exception in the block of that transform: the
  series stays as it was, the condition is printed, and the call goes on with the
  blocks that follow. For the target, \<^verbatim>\<open>transform_target\<close> is set to false and is
  false when the call returns, and the target returned is the untransformed one less the
  rows that the autoregressive block discards. For the sources \<^verbatim>\<open>'ath'\<close> and \<^verbatim>\<open>'gt'\<close>
  the unit's attributes are untouched by the failed block, and the entry of the
  dictionary when the call returns is the untransformed one less the discarded rows.
\<close>

theorem failed_transform_is_skipped:
  "(logit_percent g (target u) = Inl e \<longrightarrow>
      dp_target g True s u =
        (print [S (CHR 0x09 # ''Error: target may contain 0 or NaNs.''), E e] s,
         u\<lparr>transform_target := False\<rparr>) \<and>
      data_process g True ta tg ar s u =
        (case dp_ath g ta
                (print [S (CHR 0x09 # ''Error: target may contain 0 or NaNs.''), E e]
                   (print_if (verbose u) [S (''Processing data for '' @ label u @ '': '')] s))
                (u\<lparr>transform_target := False\<rparr>) of
           (s2, u2) \<Rightarrow> (case dp_gt g tg s2 u2 of (s3, u3) \<Rightarrow> dp_ar g ar s3 u3)) \<and>
      (\<forall>r s' u'. data_process g True ta tg ar s u = Some (r, s', u') \<longrightarrow>
         transform_target u' = False \<and> (\<exists>k. target u' = drop k (target u)) \<and>
         [S (CHR 0x09 # ''Error: target may contain 0 or NaNs.''), E e] \<in> set (stdout s'))) \<and>
   (map_of (dicts s (X u)) ''ath'' = Some a \<and> logit_percent_2d g a = Inl e \<longrightarrow>
      dp_ath g True s u =
        (print [S (CHR 0x09 # ''Error: athenahealth data may contain 0 or NaNs.''), E e] s, u) \<and>
      data_process g tt True tg ar s u =
        (case dp_target g tt
                (print_if (verbose u) [S (''Processing data for '' @ label u @ '': '')] s) u of
           (s1, u1) \<Rightarrow>
             (case dp_gt g tg
                     (print [S (CHR 0x09 # ''Error: athenahealth data may contain 0 or NaNs.''),
                             E e] s1) u1 of
                (s3, u3) \<Rightarrow> dp_ar g ar s3 u3)) \<and>
      (\<forall>r s' u'. data_process g tt True tg ar s u = Some (r, s', u') \<longrightarrow>
         (\<exists>j. map_of (dicts s' (X u)) ''ath'' = Some (drop j a)) \<and>
         [S (CHR 0x09 # ''Error: athenahealth data may contain 0 or NaNs.''), E e]
           \<in> set (stdout s'))) \<and>
   (map_of (dicts s (X u)) ''gt'' = Some a \<and> gtlog g a = Inl e \<longrightarrow>
      dp_gt g True s u =
        (print [S (CHR 0x09 # ''Error: GT data may contain 0 or NaNs.''), E e] s, u) \<and>
      data_process g tt ta True ar s u =
        (case dp_target g tt
                (print_if (verbose u) [S (''Processing data for '' @ label u @ '': '')] s) u of
           (s1, u1) \<Rightarrow>
             (case dp_ath g ta s1 u1 of
                (s2, u2) \<Rightarrow>
                  dp_ar g ar
                    (print [S (CHR 0x09 # ''Error: GT data may contain 0 or NaNs.''), E e] s2)
                    u2)) \<and>
      (\<forall>r s' u'. data_process g tt ta True ar s u = Some (r, s', u') \<longrightarrow>
         (\<exists>j. map_of (dicts s' (X u)) ''gt'' = Some (drop j a)) \<and>
         [S (CHR 0x09 # ''Error: GT data may contain 0 or NaNs.''), E e] \<in> set (stdout s')))"
proof (intro conjI impI allI)
  assume f: "logit_percent g (target u) = Inl e"
  show "dp_target g True s u =
        (print [S (CHR 0x09 # ''Error: target may contain 0 or NaNs.''), E e] s,
         u\<lparr>transform_target := False\<rparr>)"
    by (rule dp_target_fails[OF f])
  show "data_process g True ta tg ar s u =
        (case dp_ath g ta
                (print [S (CHR 0x09 # ''Error: target may contain 0 or NaNs.''), E e]
                   (print_if (verbose u) [S (''Processing data for '' @ label u @ '': '')] s))
                (u\<lparr>transform_target := False\<rparr>) of
           (s2, u2) \<Rightarrow> (case dp_gt g tg s2 u2 of (s3, u3) \<Rightarrow> dp_ar g ar s3 u3))"
    by (rule target_failure(1)[OF f])
  fix r s' u'
  assume "data_process g True ta tg ar s u = Some (r, s', u')"
  from target_failure(2)[OF f this]
  show "transform_target u' = False" "\<exists>k. target u' = drop k (target u)"
    "[S (CHR 0x09 # ''Error: target may contain 0 or NaNs.''), E e] \<in> set (stdout s')"
    by blast+
next
  assume "map_of (dicts s (X u)) ''ath'' = Some a \<and> logit_percent_2d g a = Inl e"
  then have a: "map_of (dicts s (X u)) ''ath'' = Some a" and f: "logit_percent_2d g a = Inl e"
    by blast+
  show "dp_ath g True s u =
        (print [S (CHR 0x09 # ''Error: athenahealth data may contain 0 or NaNs.''), E e] s, u)"
    by (rule dp_ath_fails[OF a f])
  show "data_process g tt True tg ar s u =
        (case dp_target g tt
                (print_if (verbose u) [S (''Processing data for '' @ label u @ '': '')] s) u of
           (s1, u1) \<Rightarrow>
             (case dp_gt g tg
                     (print [S (CHR 0x09 # ''Error: athenahealth data may contain 0 or NaNs.''),
                             E e] s1) u1 of
                (s3, u3) \<Rightarrow> dp_ar g ar s3 u3))"
    by (rule ath_failure(1)[OF a f])
  fix r s' u'
  assume "data_process g tt True tg ar s u = Some (r, s', u')"
  from ath_failure(2)[OF a f this]
  show "\<exists>j. map_of (dicts s' (X u)) ''ath'' = Some (drop j a)"
    "[S (CHR 0x09 # ''Error: athenahealth data may contain 0 or NaNs.''), E e] \<in> set (stdout s')"
    by blast+
next
  assume "map_of (dicts s (X u)) ''gt'' = Some a \<and> gtlog g a = Inl e"
  then have a: "map_of (dicts s (X u)) ''gt'' = Some a" and f: "gtlog g a = Inl e"
    by blast+
  show "dp_gt g True s u =
        (print [S (CHR 0x09 # ''Error: GT data may contain 0 or NaNs.''), E e] s, u)"
    by (rule dp_gt_fails[OF a f])
  show "data_process g tt ta True ar s u =
        (case dp_target g tt
                (print_if (verbose u) [S (''Processing data for '' @ label u @ '': '')] s) u of
           (s1, u1) \<Rightarrow>
             (case dp_ath g ta s1 u1 of
                (s2, u2) \<Rightarrow>
                  dp_ar g ar
                    (print [S (CHR 0x09 # ''Error: GT data may contain 0 or NaNs.''), E e] s2)
                    u2))"
    by (rule gt_failure(1)[OF a f])
  fix r s' u'
  assume "data_process g tt ta True ar s u = Some (r, s', u')"
  from gt_failure(2)[OF a f this]
  show "\<exists>j. map_of (dicts s' (X u)) ''gt'' = Some (drop j a)"
    "[S (CHR 0x09 # ''Error: GT data may contain 0 or NaNs.''), E e] \<in> set (stdout s')"
    by blast+
qed

text \<open>All three transforms fail on \<open>unit1\<close>.\<close>

theorem failed_transform_is_skipped_witness:
  "logit_percent env_written (target unit1) = Inl (OtherError ''zero or missing value'') \<and>
   dp_target env_written True state1 unit1 =
     (print [S (CHR 0x09 # ''Error: target may contain 0 or NaNs.''),
             E (OtherError ''zero or missing value'')] state1,
      unit1\<lparr>transform_target := False\<rparr>) \<and>
   map_of (dicts state1 (X unit1)) ''ath'' = Some [[NaN], [Num 2], [Num 3]] \<and>
   logit_percent_2d env_written [[NaN], [Num 2], [Num 3]] =
     Inl (OtherError ''zero or missing value'') \<and>
   dp_ath env_written True state1 unit1 =
     (print [S (CHR 0x09 # ''Error: athenahealth data may contain 0 or NaNs.''),
             E (OtherError ''zero or missing value'')] state1, unit1) \<and>
   map_of (dicts state1 (X unit1)) ''gt'' = Some [[Num 0], [Num 1], [Num 2]] \<and>
   gtlog env_written [[Num 0], [Num 1], [Num 2]] = Inl (OtherError ''zero or missing value'') \<and>
   dp_gt env_written True state1 unit1 =
     (print [S (CHR 0x09 # ''Error: GT data may contain 0 or NaNs.''),
             E (OtherError ''zero or missing value'')] state1, unit1)"
  using failed_transform_is_skipped[of env_written unit1 "OtherError ''zero or missing value''"
      state1 True True "PyInt 1" "[[NaN], [Num 2], [Num 3]]" True]
    failed_transform_is_skipped[of env_written unit1 "OtherError ''zero or missing value''"
      state1 True True "PyInt 1" "[[Num 0], [Num 1], [Num 2]]" True]
  by (simp add: env_written_def unit1_def unit0_def state1_def demo_transform_def
      demo_transform_2d_def bad_cell_def)

section \<open>The claims about predict\<close>

text \<open>
  Claim C2, as amended. \<^verbatim>\<open>predict\<close> stacks the selected sources before it looks at
  the calendar. When that succeeds (every selected source is in the unit's dictionary
  and the arrays stack), the start date is in the calendar at position \<open>shift\<close>, the
  width of the training window resolves to \<open>w\<close> and \<open>shift - w < 0\<close>, the call raises
  \<^verbatim>\<open>AssertionError\<close> (not enough data before the start date) and leaves the unit as
  it was: target, reserve target, calendar and predictions are untouched. Only the
  first line of a verbose run has been printed.
\<close>

theorem insufficient_history_is_fatal:
  assumes "stack_inputs iv (dicts s (X u)) = Inr Xs"
    and "to_datetime g (start_date u) = Inr d"
    and "index_of (datelist u) d = Inr shift"
    and "resolve_train_len train_len (resolution u) = Some w"
    and "int shift - int w < 0"
  shows "predict g iv meth horizon train_len in_sample params s u =
    (Some AssertionError,
     print_if (verbose u) [S (''Running method for '' @ label u @ '': ''), S meth] s, u)"
  using assms by (rule predict_insufficient)

text \<open>The start date is the second week of \<open>unit0\<close>; a window of five weeks is too wide.\<close>

theorem insufficient_history_is_fatal_witness:
  "stack_inputs (Vars [''gt'']) (dicts state0 (X unit0)) = Inr [[Num 1], [Num 2], [Num 3]] \<and>
   to_datetime env_written (start_date unit0) = Inr 7 \<and>
   index_of (datelist unit0) 7 = Inr 1 \<and>
   resolve_train_len (Width 5) (resolution unit0) = Some 5 \<and>
   int 1 - int 5 < 0 \<and>
   predict env_written (Vars [''gt'']) ''ARGO'' 0 (Width 5) False [] state0 unit0 =
     (Some AssertionError, state0, unit0)"
proof -
  have 1: "stack_inputs (Vars [''gt'']) (dicts state0 (X unit0)) = Inr [[Num 1], [Num 2], [Num 3]]"
    by (simp add: stack_inputs_def state0_def unit0_def)
  have 2: "to_datetime env_written (start_date unit0) = Inr 7"
    by (simp add: env_written_def unit0_def demo_dates_def)
  have 3: "index_of (datelist unit0) 7 = Inr 1" by (simp add: unit0_def)
  have 4: "resolve_train_len (Width 5) (resolution unit0) = Some 5"
    by (simp add: resolve_train_len_def)
  have 5: "int 1 - int 5 < 0" by simp
  from insufficient_history_is_fatal[OF 1 2 3 4 5, of "''ARGO''" 0 False "[]"] 1 2 3 4
  show ?thesis by (simp add: print_if_def unit0_def)
qed

text \<open>
  Claim C2 as stated fails: the calendar of \<open>unit0\<close> holds the start date at position
  1 and the window of five weeks reaches before the first date, but with
  \<^verbatim>\<open>input_vars='all'\<close> the call raises \<^verbatim>\<open>KeyError\<close>, since the unit has no source
  \<^verbatim>\<open>'ath'\<close>, and never reaches the assertion.
\<close>

theorem insufficient_history_counterexample:
  "to_datetime env_written (start_date unit0) = Inr 7 \<and>
   index_of (datelist unit0) 7 = Inr 1 \<and>
   resolve_train_len (Width 5) (resolution unit0) = Some 5 \<and>
   int 1 - int 5 < 0 \<and>
   predict env_written AllVars ''ARGO'' 0 (Width 5) False [] state0 unit0 =
     (Some KeyError, state0, unit0)"
  by (simp add: predict_def Let_def env_written_def state0_def unit0_def stack_inputs_def
      print_if_def demo_dates_def resolve_train_len_def)

text \<open>
  Claim C6. In a call of \<^verbatim>\<open>predict\<close> that returns, with the start date at position
  \<open>shift\<close> of the calendar and a training window of width \<open>w\<close>: the calendar kept starts
  at \<open>shift - w\<close> for an in-sample run and at \<open>shift\<close> otherwise; the design matrix and
  the target handed to the provider both start at \<open>shift - w\<close>; and after the prediction
  the target (inverted when it had been transformed) loses exactly its first \<open>w\<close>
  entries when the run is not in-sample, and none when it is.
\<close>

theorem predict_window_offsets:
  assumes "predict g iv meth horizon train_len in_sample params s u = (None, s', u')"
  shows "\<exists>Xs d shift w raw t.
     stack_inputs iv (dicts s (X u)) = Inr Xs \<and>
     to_datetime g (start_date u) = Inr d \<and>
     index_of (datelist u) d = Inr shift \<and>
     resolve_train_len train_len (resolution u) = Some w \<and> w \<le> shift \<and>
     datelist u' = drop (if in_sample then shift - w else shift) (datelist u) \<and>
     make_predictions g (drop (shift - w) Xs) (drop (shift - w) (target u))
        (transform_target u) meth horizon w in_sample params = Inr raw \<and>
     (if transform_target u
      then inverse_logit_percent g (drop (shift - w) (target u)) = Inr t
      else t = drop (shift - w) (target u)) \<and>
     target u' = (if in_sample then t else drop w t) \<and>
     target_reserve u' = drop (shift - w) (target_reserve u)"
proof -
  from predict_completes[OF assms] obtain Xs d shift w raw where
    1: "stack_inputs iv (dicts s (X u)) = Inr Xs"
    and 2: "to_datetime g (start_date u) = Inr d"
    and 3: "index_of (datelist u) d = Inr shift"
    and 4: "resolve_train_len train_len (resolution u) = Some w" and 5: "w \<le> shift"
    and 6: "make_predictions g (drop (shift - w) Xs) (drop (shift - w) (target u))
        (transform_target u) meth horizon w in_sample params = Inr raw"
    and 7: "post_predict g horizon w in_sample raw
        (predict_report u horizon in_sample shift (shift - w)
           (if in_sample then shift - w else shift) Xs
           (print_if (verbose u) [S (''Running method for '' @ label u @ '': ''), S meth] s))
        (u\<lparr>target := drop (shift - w) (target u),
           target_reserve := drop (shift - w) (target_reserve u),
           datelist := drop (if in_sample then shift - w else shift) (datelist u)\<rparr>) = (None, s', u')"
    by blast
  have "\<exists>p t. (if transform_target u
            then inverse_logit_percent g raw = Inr p \<and>
                 inverse_logit_percent g (drop (shift - w) (target u)) = Inr t
            else p = raw \<and> t = drop (shift - w) (target u)) \<and>
     target u' = (if in_sample then t else drop w t) \<and>
     datelist u' = drop (if in_sample then shift - w else shift) (datelist u) \<and>
     target_reserve u' = drop (shift - w) (target_reserve u)"
    using post_predict_fields[OF 7] by (cases "transform_target u") auto
  then obtain p t where
    8: "if transform_target u
        then inverse_logit_percent g raw = Inr p \<and>
             inverse_logit_percent g (drop (shift - w) (target u)) = Inr t
        else p = raw \<and> t = drop (shift - w) (target u)"
    and 9: "target u' = (if in_sample then t else drop w t)"
      "datelist u' = drop (if in_sample then shift - w else shift) (datelist u)"
      "target_reserve u' = drop (shift - w) (target_reserve u)"
    by blast
  from 8 have 10: "if transform_target u
      then inverse_logit_percent g (drop (shift - w) (target u)) = Inr t
      else t = drop (shift - w) (target u)"
    by (simp split: if_splits)
  note 9
  with 1 2 3 4 5 6 10 show ?thesis by blast
qed

text \<open>A run on \<open>unit0\<close> with a window of one week.\<close>

theorem predict_window_offsets_witness:
  "predict env_written (Vars [''gt'']) ''ARGO'' 0 (Width 1) False [] state0 unit0 =
     (None, state0, (unit0\<lparr>target := [Num 6], datelist := [7, 14], predictions := Some [Num 1, Num 1]\<rparr>)) \<and>
   (\<exists>Xs d shift w raw t.
     stack_inputs (Vars [''gt'']) (dicts state0 (X unit0)) = Inr Xs \<and>
     to_datetime env_written (start_date unit0) = Inr d \<and>
     index_of (datelist unit0) d = Inr shift \<and>
     resolve_train_len (Width 1) (resolution unit0) = Some w \<and> w \<le> shift \<and>
     datelist (unit0\<lparr>target := [Num 6], datelist := [7, 14], predictions := Some [Num 1, Num 1]\<rparr>) = drop (if False then shift - w else shift) (datelist unit0) \<and>
     make_predictions env_written (drop (shift - w) Xs) (drop (shift - w) (target unit0))
        (transform_target unit0) ''ARGO'' 0 w False [] = Inr raw \<and>
     (if transform_target unit0
      then inverse_logit_percent env_written (drop (shift - w) (target unit0)) = Inr t
      else t = drop (shift - w) (target unit0)) \<and>
     target (unit0\<lparr>target := [Num 6], datelist := [7, 14], predictions := Some [Num 1, Num 1]\<rparr>) = (if False then t else drop w t) \<and>
     target_reserve (unit0\<lparr>target := [Num 6], datelist := [7, 14], predictions := Some [Num 1, Num 1]\<rparr>) = drop (shift - w) (target_reserve unit0))"
proof -
  have run: "predict env_written (Vars [''gt'']) ''ARGO'' 0 (Width 1) False [] state0 unit0 =
     (None, state0, (unit0\<lparr>target := [Num 6], datelist := [7, 14], predictions := Some [Num 1, Num 1]\<rparr>))"
    by (simp add: predict_def Let_def env_written_def state0_def unit0_def stack_inputs_def
      demo_dates_def resolve_train_len_def post_predict_def insert_nans_def predict_report_def
      print_if_def metrics_call_def)
  from run predict_window_offsets[OF run] show ?thesis by (rule conjI)
qed

text \<open>
  Claim C1, as amended. In a call of \<^verbatim>\<open>predict\<close> with \<^verbatim>\<open>in_sample=False\<close> that
  returns, the stored predictions are the provider's output (inverted when the target
  had been transformed) with exactly \<open>2 * horizon\<close> missing-value markers in front; the
  target kept is the windowed target less its first \<open>w\<close> entries and the calendar kept
  starts at the start date. A call of \<^verbatim>\<open>ensemble\<close> that returns registers a unit whose
  predictions are the output of the ensemble method with \<open>2 * horizon\<close> markers in
  front. Nothing in the module makes the three lengths equal: they are those the
  provider and the loaded data give.
\<close>

theorem predictions_are_front_padded:
  "(predict g iv meth horizon train_len False params s u = (None, s', u') \<longrightarrow>
      (\<exists>Xs d shift w raw p t.
         stack_inputs iv (dicts s (X u)) = Inr Xs \<and>
         to_datetime g (start_date u) = Inr d \<and>
         index_of (datelist u) d = Inr shift \<and>
         resolve_train_len train_len (resolution u) = Some w \<and> w \<le> shift \<and>
         make_predictions g (drop (shift - w) Xs) (drop (shift - w) (target u))
           (transform_target u) meth horizon w False params = Inr raw \<and>
         (if transform_target u
          then inverse_logit_percent g raw = Inr p \<and>
               inverse_logit_percent g (drop (shift - w) (target u)) = Inr t
          else p = raw \<and> t = drop (shift - w) (target u)) \<and>
         predictions u' = Some (replicate (2 * horizon) NaN @ p) \<and>
         target u' = drop w t \<and>
         datelist u' = drop shift (datelist u))) \<and>
   (ensemble g meth lbl labels horizon width in_sample s gm = (None, s2, gm') \<longrightarrow>
      (\<exists>af run M first p e.
         argo_functions g = Some af \<and> ensemble_dispatcher af meth = Some run \<and>
         run M (unit_target first) horizon width in_sample = Inr p \<and>
         model_list gm' = model_list gm @ [Ens_predictor e] \<and>
         ens_predictions e = replicate (2 * horizon) NaN @ p))"
proof (intro conjI impI)
  assume res: "predict g iv meth horizon train_len False params s u = (None, s', u')"
  from predict_completes[OF res] obtain Xs d shift w raw where
    1: "stack_inputs iv (dicts s (X u)) = Inr Xs"
    and 2: "to_datetime g (start_date u) = Inr d"
    and 3: "index_of (datelist u) d = Inr shift"
    and 4: "resolve_train_len train_len (resolution u) = Some w" and 5: "w \<le> shift"
    and 6: "make_predictions g (drop (shift - w) Xs) (drop (shift - w) (target u))
        (transform_target u) meth horizon w False params = Inr raw"
    and 7: "post_predict g horizon w False raw
        (predict_report u horizon False shift (shift - w)
           (if False then shift - w else shift) Xs
           (print_if (verbose u) [S (''Running method for '' @ label u @ '': ''), S meth] s))
        (u\<lparr>target := drop (shift - w) (target u),
           target_reserve := drop (shift - w) (target_reserve u),
           datelist := drop (if False then shift - w else shift) (datelist u)\<rparr>) = (None, s', u')"
    by blast
  have "\<exists>p t. (if transform_target u
            then inverse_logit_percent g raw = Inr p \<and>
                 inverse_logit_percent g (drop (shift - w) (target u)) = Inr t
            else p = raw \<and> t = drop (shift - w) (target u)) \<and>
     target u' = drop w t \<and>
     predictions u' = Some (replicate (2 * horizon) NaN @ p) \<and>
     datelist u' = drop shift (datelist u)"
    using post_predict_fields[OF 7] by (cases "transform_target u") auto
  then obtain p t where
    8: "if transform_target u
        then inverse_logit_percent g raw = Inr p \<and>
             inverse_logit_percent g (drop (shift - w) (target u)) = Inr t
        else p = raw \<and> t = drop (shift - w) (target u)"
    and "predictions u' = Some (replicate (2 * horizon) NaN @ p)"
    and "target u' = drop w t" and "datelist u' = drop shift (datelist u)"
    by blast
  with 1 2 3 4 5 6 8 show "\<exists>Xs d shift w raw p t.
         stack_inputs iv (dicts s (X u)) = Inr Xs \<and>
         to_datetime g (start_date u) = Inr d \<and>
         index_of (datelist u) d = Inr shift \<and>
         resolve_train_len train_len (resolution u) = Some w \<and> w \<le> shift \<and>
         make_predictions g (drop (shift - w) Xs) (drop (shift - w) (target u))
           (transform_target u) meth horizon w False params = Inr raw \<and>
         (if transform_target u
          then inverse_logit_percent g raw = Inr p \<and>
               inverse_logit_percent g (drop (shift - w) (target u)) = Inr t
          else p = raw \<and> t = drop (shift - w) (target u)) \<and>
         predictions u' = Some (replicate (2 * horizon) NaN @ p) \<and>
         target u' = drop w t \<and>
         datelist u' = drop shift (datelist u)"
    by blast
next
  assume res: "ensemble g meth lbl labels horizon width in_sample s gm = (None, s2, gm')"
  from ensemble_completes[OF res] obtain first others cps M af run ens_pred where
    a: "argo_functions g = Some af" and b: "ensemble_dispatcher af meth = Some run"
    and c: "run M (unit_target first) horizon width in_sample = Inr ens_pred"
    and d: "gm' = gm\<lparr>model_list := model_list gm @
       [Ens_predictor
          \<lparr>ens_target = (if in_sample then unit_target first else drop width (unit_target first)),
           ens_predictions = insert_nans (horizon * 2) ens_pred,
           ens_label = lbl,
           ens_datelist = (if in_sample then unit_datelist first
                           else drop width (unit_datelist first))\<rparr>]\<rparr>"
    by blast
  let ?e = "\<lparr>ens_target = (if in_sample then unit_target first else drop width (unit_target first)),
           ens_predictions = insert_nans (horizon * 2) ens_pred,
           ens_label = lbl,
           ens_datelist = (if in_sample then unit_datelist first
                           else drop width (unit_datelist first))\<rparr>"
  from d have "model_list gm' = model_list gm @ [Ens_predictor ?e]" by simp
  moreover have "ens_predictions ?e = replicate (2 * horizon) NaN @ ens_pred"
    by (simp add: insert_nans_def mult.commute)
  ultimately show "\<exists>af run M first p e.
         argo_functions g = Some af \<and> ensemble_dispatcher af meth = Some run \<and>
         run M (unit_target first) horizon width in_sample = Inr p \<and>
         model_list gm' = model_list gm @ [Ens_predictor e] \<and>
         ens_predictions e = replicate (2 * horizon) NaN @ p"
    using a b c by blast
qed

text \<open>
  A forecast and an ensemble at horizon 1, with \<^verbatim>\<open>argo_functions\<close> bound: two markers
  in front of each.
\<close>

theorem predictions_are_front_padded_witness:
  "predict env_bound (Vars [''gt'']) ''ARGO'' 1 (Width 1) False [] state0 unit0 =
     (None, state0,
      (unit0\<lparr>target := [Num 6], datelist := [7, 14],
        predictions := Some [NaN, NaN, Num 1, Num 1]\<rparr>)) \<and>
   ensemble env_bound ''median'' ''E'' (LList [''A'', ''B'']) 1 1 False state2 geo0 =
     (None, state2,
      (geo0\<lparr>model_list := [Predictor unitA, Predictor unitB,
        Ens_predictor \<lparr>ens_target = [Num 6, Num 7],
          ens_predictions = [NaN, NaN, Num 1, Num 2], ens_label = ''E'',
          ens_datelist = [14, 21, 28]\<rparr>]\<rparr>)) \<and>
   (\<exists>p. predictions (unit0\<lparr>target := [Num 6], datelist := [7, 14],
        predictions := Some [NaN, NaN, Num 1, Num 1]\<rparr>) = Some (replicate (2 * 1) NaN @ p)) \<and>
   (\<exists>e p. model_list (geo0\<lparr>model_list := [Predictor unitA, Predictor unitB,
        Ens_predictor \<lparr>ens_target = [Num 6, Num 7],
          ens_predictions = [NaN, NaN, Num 1, Num 2], ens_label = ''E'',
          ens_datelist = [14, 21, 28]\<rparr>]\<rparr>) = model_list geo0 @ [Ens_predictor e] \<and>
      ens_predictions e = replicate (2 * 1) NaN @ p)"
proof -
  have run1: "predict env_bound (Vars [''gt'']) ''ARGO'' 1 (Width 1) False [] state0 unit0 =
     (None, state0,
      (unit0\<lparr>target := [Num 6], datelist := [7, 14],
        predictions := Some [NaN, NaN, Num 1, Num 1]\<rparr>))"
    by (simp add: predict_def Let_def env_bound_def env_written_def state0_def unit0_def
      stack_inputs_def demo_dates_def resolve_train_len_def post_predict_def insert_nans_def
      predict_report_def print_if_def metrics_call_def demo_argo_functions_def
      numeral_2_eq_2)
  have run2: "ensemble env_bound ''median'' ''E'' (LList [''A'', ''B'']) 1 1 False state2 geo0 =
     (None, state2,
      (geo0\<lparr>model_list := [Predictor unitA, Predictor unitB,
        Ens_predictor \<lparr>ens_target = [Num 6, Num 7],
          ens_predictions = [NaN, NaN, Num 1, Num 2], ens_label = ''E'',
          ens_datelist = [14, 21, 28]\<rparr>]\<rparr>))"
    by (simp add: ensemble_def Let_def env_bound_def env_written_def geo0_def unitA_def unitB_def
      state2_def print_if_def column_def insert_nans_def demo_argo_functions_def
      first_column_def numeral_2_eq_2)
  from predictions_are_front_padded[THEN conjunct1, THEN mp, OF run1]
  have a: "\<exists>p. predictions (unit0\<lparr>target := [Num 6], datelist := [7, 14],
        predictions := Some [NaN, NaN, Num 1, Num 1]\<rparr>) = Some (replicate (2 * 1) NaN @ p)"
    by blast
  from predictions_are_front_padded[THEN conjunct2, THEN mp, OF run2]
  have b: "\<exists>e p. model_list (geo0\<lparr>model_list := [Predictor unitA, Predictor unitB,
        Ens_predictor \<lparr>ens_target = [Num 6, Num 7],
          ens_predictions = [NaN, NaN, Num 1, Num 2], ens_label = ''E'',
          ens_datelist = [14, 21, 28]\<rparr>]\<rparr>) = model_list geo0 @ [Ens_predictor e] \<and>
      ens_predictions e = replicate (2 * 1) NaN @ p"
    by blast
  from run1 run2 a b show ?thesis by blast
qed

text \<open>
  Claim C1 as stated fails: \<open>unit0\<close> has three rows of input for two target values (the
  inputs are one step ahead of the target); the provider returns one prediction per row
  after the training window; the call returns with two predictions and one target value.
\<close>

theorem prediction_lengths_counterexample:
  "predict env_written (Vars [''gt'']) ''ARGO'' 0 (Width 1) False [] state0 unit0 =
     (None, state0,
      unit0\<lparr>target := [Num 6], datelist := [7, 14], predictions := Some [Num 1, Num 1]\<rparr>) \<and>
   length [Num 1, Num 1 :: cell] \<noteq> length [Num 6 :: cell]"
  by (simp add: predict_def Let_def env_written_def state0_def unit0_def stack_inputs_def
      demo_dates_def resolve_train_len_def post_predict_def insert_nans_def predict_report_def
      print_if_def metrics_call_def)

section \<open>The claims about ensemble\<close>

text \<open>
  Claim C9, as amended. In the module as written the name \<^verbatim>\<open>argo_functions\<close> is
  unbound. Every call of \<^verbatim>\<open>ensemble\<close> then ends with an exception before any unit is
  produced or registered: the orchestrator is as it was, and only the first line of a
  verbose run has been printed. The exception is \<^verbatim>\<open>NameError\<close> whenever the members
  can be selected and their predictions stacked (at least one unit is selected, each
  selected unit has predictions, and these have one length); otherwise it is the
  exception of the selection or of the stacking, raised earlier.
\<close>

theorem ensemble_fails_as_written:
  "argo_functions g = None \<longrightarrow>
     (\<exists>e. ensemble g meth lbl labels horizon w in_sample s gm =
        (Some e, print_if (gm_verbose gm) [S ''Running ensemble model: '', S meth] s, gm)) \<and>
     (\<forall>cl cps M.
        select_units labels (model_list gm) = Inr cl \<and> compat_preds horizon cl = Inr cps \<and>
        hstack cps = Inr M \<longrightarrow>
        ensemble g meth lbl labels horizon w in_sample s gm =
          (Some NameError,
           print_if (gm_verbose gm) [S ''Running ensemble model: '', S meth] s, gm))"
proof (intro impI conjI allI)
  assume a: "argo_functions g = None"
  show "\<exists>e. ensemble g meth lbl labels horizon w in_sample s gm =
        (Some e, print_if (gm_verbose gm) [S ''Running ensemble model: '', S meth] s, gm)"
    by (rule ensemble_unbound[OF a])
  fix cl cps M
  assume "select_units labels (model_list gm) = Inr cl \<and> compat_preds horizon cl = Inr cps \<and>
        hstack cps = Inr M"
  then have "select_units labels (model_list gm) = Inr cl" "compat_preds horizon cl = Inr cps"
    "hstack cps = Inr M" by blast+
  then show "ensemble g meth lbl labels horizon w in_sample s gm =
          (Some NameError,
           print_if (gm_verbose gm) [S ''Running ensemble model: '', S meth] s, gm)"
    by (rule ensemble_unbound_name[OF a])
qed

text \<open>The two units of \<open>geo0\<close> stack, and the dispatch is reached.\<close>

theorem ensemble_fails_as_written_witness:
  "argo_functions env_written = None \<and>
   select_units (LList [''A'', ''B'']) (model_list geo0) = Inr [Predictor unitA, Predictor unitB] \<and>
   compat_preds 1 [Predictor unitA, Predictor unitB] =
     Inr [[[Num 1], [Num 2]], [[Num 3], [Num 4]]] \<and>
   hstack [[[Num 1], [Num 2]], [[Num 3], [Num 4]]] = Inr [[Num 1, Num 3], [Num 2, Num 4]] \<and>
   ensemble env_written ''median'' ''E'' (LList [''A'', ''B'']) 1 1 False state2 geo0 =
     (Some NameError, state2, geo0)"
proof -
  have a: "argo_functions env_written = None" by (simp add: env_written_def)
  have b: "select_units (LList [''A'', ''B'']) (model_list geo0) =
      Inr [Predictor unitA, Predictor unitB]"
    by (simp add: geo0_def unitA_def unitB_def)
  have c: "compat_preds 1 [Predictor unitA, Predictor unitB] =
     Inr [[[Num 1], [Num 2]], [[Num 3], [Num 4]]]"
    by (simp add: unitA_def unitB_def column_def numeral_2_eq_2)
  have d: "hstack [[[Num 1], [Num 2]], [[Num 3], [Num 4]]] = Inr [[Num 1, Num 3], [Num 2, Num 4]]"
    by simp
  from ensemble_fails_as_written[THEN mp, OF a, THEN conjunct2, rule_format,
      OF conjI[OF b conjI[OF c d]],
      where meth = "''median''" and lbl = "''E''" and in_sample = False and s = state2 and w = 1]
  have "ensemble env_written ''median'' ''E'' (LList [''A'', ''B'']) 1 1 False state2 geo0 =
     (Some NameError, state2, geo0)"
    by (simp add: print_if_def geo0_def)
  with a b c d show ?thesis by blast
qed

text \<open>
  Claim C9 as stated fails: when no unit carries a requested label, the list to stack is
  empty and \<^verbatim>\<open>np.hstack\<close> raises \<^verbatim>\<open>ValueError\<close> before the name \<^verbatim>\<open>argo_functions\<close> is
  looked up.
\<close>

theorem ensemble_error_counterexample:
  "argo_functions env_written = None \<and>
   ensemble env_written ''median'' ''E'' (LList [''C'']) 1 1 False state2 geo0 =
     (Some ValueError, state2, geo0)"
  by (simp add: ensemble_def Let_def env_written_def geo0_def unitA_def unitB_def
      print_if_def)

text \<open>
  Claim C3 holds for \<^verbatim>\<open>predict\<close> and not for \<^verbatim>\<open>ensemble\<close>. \<^verbatim>\<open>predict\<close> reports
  the metrics inside \<^verbatim>\<open>try ... except:\<close>, so neither its exception nor the state of
  the unit depends on what the report does (\<open>predict_ignores_metrics\<close>). \<^verbatim>\<open>ensemble\<close>
  reports them unguarded: with \<^verbatim>\<open>argo_functions\<close> bound to a module whose \<^verbatim>\<open>metrics\<close>
  raises, the exception leaves \<^verbatim>\<open>ensemble\<close> and no unit is registered, while
  \<^verbatim>\<open>predict\<close> returns.
\<close>

theorem ensemble_metrics_failure_propagates:
  "ensemble env_failing_metrics ''median'' ''E'' (LList [''A'', ''B'']) 1 1 False state2 geo0 =
     (Some (OtherError ''metrics''), state2, geo0) \<and>
   predict env_failing_metrics (Vars [''gt'']) ''ARGO'' 1 (Width 1) False [] state0 unit0 =
     (None, state0,
      unit0\<lparr>target := [Num 6], datelist := [7, 14],
        predictions := Some [NaN, NaN, Num 1, Num 1]\<rparr>)"
proof
  show "ensemble env_failing_metrics ''median'' ''E'' (LList [''A'', ''B'']) 1 1 False state2 geo0 =
     (Some (OtherError ''metrics''), state2, geo0)"
    by (simp add: ensemble_def Let_def env_failing_metrics_def env_written_def geo0_def
      unitA_def unitB_def state2_def print_if_def column_def insert_nans_def
      demo_argo_functions_def first_column_def numeral_2_eq_2)
  show "predict env_failing_metrics (Vars [''gt'']) ''ARGO'' 1 (Width 1) False [] state0 unit0 =
     (None, state0,
      unit0\<lparr>target := [Num 6], datelist := [7, 14],
        predictions := Some [NaN, NaN, Num 1, Num 1]\<rparr>)"
    by (simp add: predict_def Let_def env_failing_metrics_def env_written_def state0_def
      unit0_def stack_inputs_def demo_dates_def resolve_train_len_def post_predict_def
      insert_nans_def predict_report_def print_if_def metrics_call_def demo_argo_functions_def
      numeral_2_eq_2)
qed

text \<open>
  Claim C5. \<^verbatim>\<open>ensemble\<close> selects exactly the units whose label is in the list of
  member labels, in the order of the orchestrator's list. In a call that returns, every
  selected unit has predictions, the matrix handed to the ensemble method has one row
  per entry left after the first \<open>2 * horizon\<close> and one column per selected unit (row
  \<open>i\<close> holds entry \<open>2 * horizon + i\<close> of each unit's predictions), the target handed
  over is the first selected unit's, and the unit registered at the end of the list
  carries that unit's target and calendar, less their first \<open>w\<close> entries when the run is
  not in-sample. (In the module as written no call returns, see C9: the statement about
  the registered unit is about runs with \<^verbatim>\<open>argo_functions\<close> bound.)
\<close>

theorem ensemble_design_matrix:
  "select_units (LList ls) (model_list gm) =
     Inr (filter (\<lambda>m. unit_label m \<in> set ls) (model_list gm)) \<and>
   (ensemble g meth lbl (LList ls) horizon w in_sample s gm = (None, s', gm') \<longrightarrow>
    (\<exists>first others ps M af run ens_pred.
       filter (\<lambda>m. unit_label m \<in> set ls) (model_list gm) = first # others \<and>
       map unit_predictions (first # others) = map Some ps \<and>
       list_all (\<lambda>p. length p - 2 * horizon = length M) ps \<and>
       (\<forall>i < length M. M ! i = map (\<lambda>p. p ! (2 * horizon + i)) ps) \<and>
       argo_functions g = Some af \<and> ensemble_dispatcher af meth = Some run \<and>
       run M (unit_target first) horizon w in_sample = Inr ens_pred \<and>
       model_list gm' = model_list gm @
         [Ens_predictor
            \<lparr>ens_target = (if in_sample then unit_target first else drop w (unit_target first)),
              ens_predictions = insert_nans (horizon * 2) ens_pred,
              ens_label = lbl,
              ens_datelist = (if in_sample then unit_datelist first
                              else drop w (unit_datelist first))\<rparr>]))"
proof (intro conjI impI)
  show "select_units (LList ls) (model_list gm) =
     Inr (filter (\<lambda>m. unit_label m \<in> set ls) (model_list gm))"
    by (rule select_units_list)
next
  assume res: "ensemble g meth lbl (LList ls) horizon w in_sample s gm = (None, s', gm')"
  from ensemble_completes[OF res] obtain first others cps M af run ens_pred where
    sel: "select_units (LList ls) (model_list gm) = Inr (first # others)"
    and cp: "compat_preds horizon (first # others) = Inr cps"
    and hs: "hstack cps = Inr M"
    and af: "argo_functions g = Some af" and run: "ensemble_dispatcher af meth = Some run"
    and call: "run M (unit_target first) horizon w in_sample = Inr ens_pred"
    and gm': "gm' = gm\<lparr>model_list := model_list gm @
       [Ens_predictor
          \<lparr>ens_target = (if in_sample then unit_target first else drop w (unit_target first)),
           ens_predictions = insert_nans (horizon * 2) ens_pred,
           ens_label = lbl,
           ens_datelist = (if in_sample then unit_datelist first
                           else drop w (unit_datelist first))\<rparr>]\<rparr>"
    by blast
  from sel have f: "filter (\<lambda>m. unit_label m \<in> set ls) (model_list gm) = first # others"
    by (simp add: select_units_list)
  from compat_preds_columns[OF cp] obtain ps where
    ps: "map unit_predictions (first # others) = map Some ps"
    and cps: "cps = map (\<lambda>p. column (drop (2 * horizon) p)) ps"
    by blast
  from cps have "cps = map column (map (drop (2 * horizon)) ps)" by simp
  with hs have "hstack (map column (map (drop (2 * horizon)) ps)) = Inr M" by simp
  from hstack_columns[OF this]
  have lens: "list_all (\<lambda>c. length c = length M) (map (drop (2 * horizon)) ps)"
    and rows: "\<forall>i < length M. M ! i = map (\<lambda>c. c ! i) (map (drop (2 * horizon)) ps)"
    by blast+
  from lens have l: "list_all (\<lambda>p. length p - 2 * horizon = length M) ps"
    by (simp add: list_all_iff)
  have r: "\<forall>i < length M. M ! i = map (\<lambda>p. p ! (2 * horizon + i)) ps"
  proof (intro allI impI)
    fix i assume i: "i < length M"
    have "map (\<lambda>c. c ! i) (map (drop (2 * horizon)) ps) = map (\<lambda>p. p ! (2 * horizon + i)) ps"
    proof -
      have "drop (2 * horizon) p ! i = p ! (2 * horizon + i)" if "p \<in> set ps" for p
      proof -
        from l that have "length p - 2 * horizon = length M" by (simp add: list_all_iff)
        with i have "2 * horizon \<le> length p" by simp
        then show ?thesis by simp
      qed
      then show ?thesis by simp
    qed
    with rows i show "M ! i = map (\<lambda>p. p ! (2 * horizon + i)) ps" by simp
  qed
  from gm' have m: "model_list gm' = model_list gm @
         [Ens_predictor
            \<lparr>ens_target = (if in_sample then unit_target first else drop w (unit_target first)),
              ens_predictions = insert_nans (horizon * 2) ens_pred,
              ens_label = lbl,
              ens_datelist = (if in_sample then unit_datelist first
                              else drop w (unit_datelist first))\<rparr>]"
    by simp
  from f ps l r af run call m show "\<exists>first others ps M af run ens_pred.
       filter (\<lambda>m. unit_label m \<in> set ls) (model_list gm) = first # others \<and>
       map unit_predictions (first # others) = map Some ps \<and>
       list_all (\<lambda>p. length p - 2 * horizon = length M) ps \<and>
       (\<forall>i < length M. M ! i = map (\<lambda>p. p ! (2 * horizon + i)) ps) \<and>
       argo_functions g = Some af \<and> ensemble_dispatcher af meth = Some run \<and>
       run M (unit_target first) horizon w in_sample = Inr ens_pred \<and>
       model_list gm' = model_list gm @
         [Ens_predictor
            \<lparr>ens_target = (if in_sample then unit_target first else drop w (unit_target first)),
              ens_predictions = insert_nans (horizon * 2) ens_pred,
              ens_label = lbl,
              ens_datelist = (if in_sample then unit_datelist first
                              else drop w (unit_datelist first))\<rparr>]"
    by blast
qed

text \<open>The ensemble of the two units of \<open>geo0\<close> at horizon 1.\<close>

theorem ensemble_design_matrix_witness:
  "ensemble env_bound ''median'' ''E'' (LList [''A'', ''B'']) 1 1 False state2 geo0 =
     (None, state2,
      (geo0\<lparr>model_list := [Predictor unitA, Predictor unitB,
        Ens_predictor \<lparr>ens_target = [Num 6, Num 7],
          ens_predictions = [NaN, NaN, Num 1, Num 2], ens_label = ''E'',
          ens_datelist = [14, 21, 28]\<rparr>]\<rparr>)) \<and>
   (\<exists>first others ps M af run ens_pred.
       filter (\<lambda>m. unit_label m \<in> set [''A'', ''B'']) (model_list geo0) = first # others \<and>
       map unit_predictions (first # others) = map Some ps \<and>
       list_all (\<lambda>p. length p - 2 * 1 = length M) ps \<and>
       (\<forall>i < length M. M ! i = map (\<lambda>p. p ! (2 * 1 + i)) ps) \<and>
       argo_functions env_bound = Some af \<and> ensemble_dispatcher af ''median'' = Some run \<and>
       run M (unit_target first) 1 1 False = Inr ens_pred \<and>
       model_list (geo0\<lparr>model_list := [Predictor unitA, Predictor unitB,
        Ens_predictor \<lparr>ens_target = [Num 6, Num 7],
          ens_predictions = [NaN, NaN, Num 1, Num 2], ens_label = ''E'',
          ens_datelist = [14, 21, 28]\<rparr>]\<rparr>) = model_list geo0 @
         [Ens_predictor
            \<lparr>ens_target = (if False then unit_target first else drop 1 (unit_target first)),
              ens_predictions = insert_nans (1 * 2) ens_pred,
              ens_label = ''E'',
              ens_datelist = (if False then unit_datelist first
                              else drop 1 (unit_datelist first))\<rparr>])"
proof -
  have run: "ensemble env_bound ''median'' ''E'' (LList [''A'', ''B'']) 1 1 False state2 geo0 =
     (None, state2,
      (geo0\<lparr>model_list := [Predictor unitA, Predictor unitB,
        Ens_predictor \<lparr>ens_target = [Num 6, Num 7],
          ens_predictions = [NaN, NaN, Num 1, Num 2], ens_label = ''E'',
          ens_datelist = [14, 21, 28]\<rparr>]\<rparr>))"
    by (simp add: ensemble_def Let_def env_bound_def env_written_def geo0_def unitA_def unitB_def
      state2_def print_if_def column_def insert_nans_def demo_argo_functions_def
      first_column_def numeral_2_eq_2)
  from run ensemble_design_matrix[THEN conjunct2, THEN mp, OF run] show ?thesis by (rule conjI)
qed

end
